theory Spec2Isabelle
  imports Main "HOL-Library.Char_ord" "HOL-Library.List_Lexorder"
begin

section \<open>Values of the Python program\<close>

text \<open>
  The connector \<^verbatim>\<open>source_twilio/streams.py\<close> works on decoded JSON: response
  documents, records, stream states and slices are Python dictionaries whose values are
  whatever \<^verbatim>\<open>response.json()\<close> produced. A JSON object is an association list
  (looked up with \<open>map_of\<close>); the flat dictionaries the methods build and return
  (request parameters, page tokens, states, slices) are maps. Numbers are the integers.
  Strings are byte strings (UTF-8), compared as Python compares \<^verbatim>\<open>str\<close>:
  lexicographically, code point by code point.
\<close>

datatype json =
    JNull
  | JBool bool
  | JInt int
  | JStr string
  | JList "json list"
  | JDict "(string \<times> json) list"

text \<open>The exceptions the modelled code can raise.\<close>

datatype py_error =
    KeyError
  | TypeError
  | AttributeError
  | ValueError
  | ParserError
  | HTTPError

type_synonym 'a result = "py_error + 'a"

type_synonym pydict = "string \<rightharpoonup> json"

text \<open>Python truthiness, as \<^verbatim>\<open>if x:\<close>, \<^verbatim>\<open>x or y\<close> and \<^verbatim>\<open>x and y\<close> test it.\<close>

fun truthy :: "json \<Rightarrow> bool" where
  "truthy JNull = False"
| "truthy (JBool b) = b"
| "truthy (JInt n) = (n \<noteq> 0)"
| "truthy (JStr s) = (s \<noteq> [])"
| "truthy (JList xs) = (xs \<noteq> [])"
| "truthy (JDict kvs) = (kvs \<noteq> [])"

text \<open>\<^verbatim>\<open>d.get(k)\<close> followed by a truth test: a missing key gives \<^verbatim>\<open>None\<close>, which is false.\<close>

definition get_truthy :: "pydict \<Rightarrow> string \<Rightarrow> json option" where
  "get_truthy d k = (case d k of None \<Rightarrow> None | Some v \<Rightarrow> if truthy v then Some v else None)"

section \<open>Library functions the connector calls\<close>

text \<open>
  \<^verbatim>\<open>pendulum.parse\<close>, \<^verbatim>\<open>strftime\<close>, the percent-decoding of
  \<^verbatim>\<open>urllib.parse.unquote\<close>, the validation \<^verbatim>\<open>urlsplit\<close> applies to a network
  location and the formatting of a non-string value inside an f-string are not part of
  the connector. The model takes them as the fields of a parameter, so every theorem
  holds for whatever these functions compute.
  \<^item> \<open>pendulum_parse strict text\<close> is \<^verbatim>\<open>pendulum.parse(text, strict=strict)\<close> on a
    string, at one instant (the text \<^verbatim>\<open>now\<close> reads the clock); it raises on a text
    it cannot read.
  \<^item> \<open>strftime t template\<close> is \<^verbatim>\<open>t.strftime(template)\<close>.
  \<^item> \<open>unquote_escapes s\<close> is \<^verbatim>\<open>unquote(s)\<close> for a string that holds a \<^verbatim>\<open>%\<close>.
  \<^item> \<open>netloc_ok n\<close> says that \<^verbatim>\<open>urlsplit\<close> accepts the network location \<open>n\<close>.
  \<^item> \<open>format_value v\<close> is \<^verbatim>\<open>format(v, '')\<close> for a value that is not a string.
\<close>

record 't pylib =
  pendulum_parse :: "bool \<Rightarrow> string \<Rightarrow> 't result"
  strftime :: "'t \<Rightarrow> string \<Rightarrow> string result"
  unquote_escapes :: "string \<Rightarrow> string"
  netloc_ok :: "string \<Rightarrow> bool"
  format_value :: "json \<Rightarrow> string"

text \<open>
  \<^verbatim>\<open>pendulum.parse(v, strict=b).strftime(template)\<close> for a decoded JSON value \<open>v\<close>:
  only a string can be parsed.
\<close>

definition parse_strftime :: "'t pylib \<Rightarrow> bool \<Rightarrow> json \<Rightarrow> string \<Rightarrow> string result" where
  "parse_strftime lib strict v template =
     (case v of
        JStr text \<Rightarrow>
          (case pendulum_parse lib strict text of
             Inl e \<Rightarrow> Inl e
           | Inr t \<Rightarrow> strftime lib t template)
      | _ \<Rightarrow> Inl TypeError)"

section \<open>Decoding the continuation URL\<close>

text \<open>
  \<^verbatim>\<open>urllib.parse.urlparse\<close> and \<^verbatim>\<open>parse_qsl\<close> of the Python standard library, as
  the current interpreters compute them, restricted to what \<open>next_page_token\<close> reads:
  the query component of the URL, and the list of its name and value pairs.
\<close>

text \<open>\<^verbatim>\<open>s.split(sep)\<close>: the pieces between the occurrences of \<open>sep\<close>.\<close>

fun split_on :: "char \<Rightarrow> string \<Rightarrow> string list" where
  "split_on sep [] = [[]]"
| "split_on sep (c # cs) =
     (if c = sep then [] # split_on sep cs
      else (case split_on sep cs of
              [] \<Rightarrow> [[c]]
            | w # ws \<Rightarrow> (c # w) # ws))"

text \<open>\<^verbatim>\<open>s.split(sep, 1)\<close> for a string that holds \<open>sep\<close>: what is before its first
  occurrence, and what is after.\<close>

definition split_first :: "char \<Rightarrow> string \<Rightarrow> string \<times> string" where
  "split_first sep s = (takeWhile (\<lambda>c. c \<noteq> sep) s, drop 1 (dropWhile (\<lambda>c. c \<noteq> sep) s))"

text \<open>\<^verbatim>\<open>url.lstrip(_WHATWG_C0_CONTROL_OR_SPACE)\<close>, then the removal of tab, carriage
  return and line feed.\<close>

definition lstrip_c0_space :: "string \<Rightarrow> string" where
  "lstrip_c0_space url = dropWhile (\<lambda>c. of_char c \<le> (32::nat)) url"

definition remove_unsafe :: "string \<Rightarrow> string" where
  "remove_unsafe url = filter (\<lambda>c. c \<noteq> CHR 0x09 \<and> c \<noteq> CHR 0x0D \<and> c \<noteq> CHR 0x0A) url"

definition ascii_alpha :: "char \<Rightarrow> bool" where
  "ascii_alpha c = ((CHR ''a'' \<le> c \<and> c \<le> CHR ''z'') \<or> (CHR ''A'' \<le> c \<and> c \<le> CHR ''Z''))"

definition scheme_char :: "char \<Rightarrow> bool" where
  "scheme_char c =
     (ascii_alpha c \<or> (CHR ''0'' \<le> c \<and> c \<le> CHR ''9'') \<or> c = CHR ''+'' \<or> c = CHR ''-'' \<or> c = CHR ''.'')"

text \<open>The URL without its scheme, when what stands before the first colon is one.\<close>

definition strip_scheme :: "string \<Rightarrow> string" where
  "strip_scheme url =
     (let pre = takeWhile (\<lambda>c. c \<noteq> CHR '':'') url
      in if CHR '':'' \<in> set url \<and> pre \<noteq> [] \<and> ascii_alpha (hd pre) \<and> list_all scheme_char pre
         then drop (length pre + 1) url
         else url)"

definition netloc_end :: "char \<Rightarrow> bool" where
  "netloc_end c = (c = CHR ''/'' \<or> c = CHR ''?'' \<or> c = CHR ''#'')"

text \<open>
  \<^verbatim>\<open>urlparse(text).query\<close>. A URL that starts with two slashes (after its scheme) has a
  network location, which the library validates: \<^verbatim>\<open>ValueError\<close> when it refuses it. The
  fragment is cut off at the first \<^verbatim>\<open>#\<close>; the query is what follows the first
  \<^verbatim>\<open>?\<close> of the rest.
\<close>

definition urlparse_query :: "'t pylib \<Rightarrow> string \<Rightarrow> string result" where
  "urlparse_query lib text =
     (let url = strip_scheme (remove_unsafe (lstrip_c0_space text));
          has_netloc = (take 2 url = ''//'');
          netloc = (if has_netloc then takeWhile (\<lambda>c. \<not> netloc_end c) (drop 2 url) else []);
          rest = (if has_netloc then dropWhile (\<lambda>c. \<not> netloc_end c) (drop 2 url) else url);
          before_fragment = fst (split_first (CHR ''#'') rest)
      in if has_netloc \<and> \<not> netloc_ok lib netloc then Inl ValueError
         else Inr (snd (split_first (CHR ''?'') before_fragment)))"

definition plus_to_space :: "string \<Rightarrow> string" where
  "plus_to_space s = map (\<lambda>c. if c = CHR ''+'' then CHR '' '' else c) s"

definition unquote :: "'t pylib \<Rightarrow> string \<Rightarrow> string" where
  "unquote lib s = (if CHR ''%'' \<in> set s then unquote_escapes lib s else s)"

text \<open>
  One field of the query string in \<^verbatim>\<open>parse_qsl\<close>, called with its defaults
  (\<^verbatim>\<open>keep_blank_values=False\<close>, \<^verbatim>\<open>strict_parsing=False\<close>): an empty field, a field
  with no \<^verbatim>\<open>=\<close> and a field with an empty value are passed over.
\<close>

definition parse_qsl_field :: "'t pylib \<Rightarrow> string \<Rightarrow> (string \<times> string) list" where
  "parse_qsl_field lib name_value =
     (if name_value = [] then []
      else if CHR ''='' \<notin> set name_value then []
      else (let nv = split_first (CHR ''='') name_value
            in if snd nv \<noteq> []
               then [(unquote lib (plus_to_space (fst nv)), unquote lib (plus_to_space (snd nv)))]
               else []))"

definition parse_qsl :: "'t pylib \<Rightarrow> string \<Rightarrow> (string \<times> string) list" where
  "parse_qsl lib qs = concat (map (parse_qsl_field lib) (split_on (CHR ''&'') qs))"

text \<open>\<^verbatim>\<open>dict(pairs)\<close>: a later pair replaces an earlier one with the same name.\<close>

fun dict_update_pairs :: "pydict \<Rightarrow> (string \<times> string) list \<Rightarrow> pydict" where
  "dict_update_pairs d [] = d"
| "dict_update_pairs d (kv # pairs) = dict_update_pairs (d(fst kv \<mapsto> JStr (snd kv))) pairs"

definition dict_of_pairs :: "(string \<times> string) list \<Rightarrow> pydict" where
  "dict_of_pairs pairs = dict_update_pairs Map.empty pairs"

section \<open>Stream classes\<close>

text \<open>
  A stream class of the connector, as the class attributes its methods read. \<open>kind\<close>
  names the class that supplies \<^verbatim>\<open>path\<close> and \<^verbatim>\<open>stream_slices\<close>. \<open>incremental\<close>
  says that the class inherits \<^verbatim>\<open>IncrementalTwilioStream\<close>; the cursor field and the
  filter field of a class that does not are never read. \<open>data_field_attr\<close> and
  \<open>subresource_uri_key_attr\<close> are the overrides of the two properties, \<open>None\<close> where
  the class keeps the inherited property. The sentinel values of
  \<^verbatim>\<open>media_exist_validation\<close> are strings, as in the only class that sets it.
\<close>

datatype stream_kind = TopLevel | AlertsPath | Nested | DependentSlices | UsageNested

record stream_attrs =
  name :: string
  kind :: stream_kind
  url_base :: string
  data_field_attr :: "string option"
  subresource_uri_key_attr :: "string option"
  media_exist_validation :: "(string \<times> string) list"
  incremental :: bool
  cursor_field :: string
  time_filter_template :: string
  incremental_filter_field :: string
  path_name :: string

datatype stream = Stream (attrs: stream_attrs) (parent_stream: "stream option")

definition page_size :: int where
  "page_size = 100"

definition data_field :: "stream_attrs \<Rightarrow> string" where
  "data_field self = (case data_field_attr self of None \<Rightarrow> name self | Some d \<Rightarrow> d)"

definition subresource_uri_key :: "stream_attrs \<Rightarrow> string" where
  "subresource_uri_key self =
     (case subresource_uri_key_attr self of None \<Rightarrow> data_field self | Some k \<Rightarrow> k)"

section \<open>TwilioStream\<close>

text \<open>
  \<^verbatim>\<open>str.title()\<close> on an ASCII name: the first letter of every run of letters in upper
  case, the others in lower case.
\<close>

definition ascii_upper :: "char \<Rightarrow> char" where
  "ascii_upper c =
     (case map_of (zip ''abcdefghijklmnopqrstuvwxyz'' ''ABCDEFGHIJKLMNOPQRSTUVWXYZ'') c of
        None \<Rightarrow> c
      | Some u \<Rightarrow> u)"

definition ascii_lower :: "char \<Rightarrow> char" where
  "ascii_lower c =
     (case map_of (zip ''ABCDEFGHIJKLMNOPQRSTUVWXYZ'' ''abcdefghijklmnopqrstuvwxyz'') c of
        None \<Rightarrow> c
      | Some l \<Rightarrow> l)"

fun title_from :: "bool \<Rightarrow> string \<Rightarrow> string" where
  "title_from after_letter [] = []"
| "title_from after_letter (c # cs) =
     (if ascii_alpha c
      then (if after_letter then ascii_lower c else ascii_upper c) # title_from True cs
      else c # title_from False cs)"

definition title :: "string \<Rightarrow> string" where
  "title s = title_from False s"

definition TwilioStream_path :: "stream_attrs \<Rightarrow> json result" where
  "TwilioStream_path self = Inr (JStr (title (name self) @ ''.json''))"

definition next_page_token :: "'t pylib \<Rightarrow> json \<Rightarrow> pydict option result" where
  "next_page_token lib stream_data =
     (case stream_data of
        JDict d \<Rightarrow>
          (case get_truthy (map_of d) ''next_page_uri'' of
             None \<Rightarrow> Inr None
           | Some (JStr next_page_uri) \<Rightarrow>
               (case urlparse_query lib next_page_uri of
                  Inl e \<Rightarrow> Inl e
                | Inr q \<Rightarrow> Inr (Some (dict_of_pairs (parse_qsl lib q))))
           | Some _ \<Rightarrow> Inl AttributeError)
      | _ \<Rightarrow> Inl AttributeError)"

text \<open>The characters of a UTF-8 string, which iterating over a \<^verbatim>\<open>str\<close> yields.\<close>

fun utf8_chars :: "string \<Rightarrow> string list" where
  "utf8_chars [] = []"
| "utf8_chars (c # cs) =
     (let n = (if of_char c < (0xC0::nat) then 0
               else if of_char c < (0xE0::nat) then 1
               else if of_char c < (0xF0::nat) then 2 else (3::nat))
      in (c # take n cs) # utf8_chars (drop n cs))"

text \<open>
  \<^verbatim>\<open>yield from records\<close>: a list yields its elements, a string its characters, a
  dictionary its keys; nothing else can be iterated.
\<close>

definition parse_response :: "stream_attrs \<Rightarrow> json \<Rightarrow> json list result" where
  "parse_response self doc =
     (case doc of
        JDict d \<Rightarrow>
          (case map_of d (data_field self) of
             None \<Rightarrow> Inr []
           | Some (JList records) \<Rightarrow> Inr records
           | Some (JStr s) \<Rightarrow> Inr (map JStr (utf8_chars s))
           | Some (JDict kvs) \<Rightarrow> Inr (map (\<lambda>kv. JStr (fst kv)) kvs)
           | Some _ \<Rightarrow> Inl TypeError)
      | _ \<Rightarrow> Inl AttributeError)"

text \<open>
  Modelled from the spec: the framework's \<^verbatim>\<open>HttpStream.request_params\<close>, which
  \<^verbatim>\<open>super().request_params(...)\<close> reaches, is not in the connector; it gives the
  empty dictionary, so that no parameter of an earlier request survives.
\<close>

definition HttpStream_request_params :: pydict where
  "HttpStream_request_params = Map.empty"

definition TwilioStream_request_params :: "pydict \<Rightarrow> pydict option \<Rightarrow> pydict" where
  "TwilioStream_request_params stream_state page_token =
     (let params = HttpStream_request_params(''PageSize'' \<mapsto> JInt page_size)
      in case page_token of
           None \<Rightarrow> params
         | Some tok \<Rightarrow> if tok \<noteq> Map.empty then params ++ tok else params)"

section \<open>IncrementalTwilioStream\<close>

definition latest_benchmark :: "'t pylib \<Rightarrow> stream_attrs \<Rightarrow> pydict \<Rightarrow> string result" where
  "latest_benchmark lib self latest_record =
     (case latest_record (cursor_field self) of
        None \<Rightarrow> Inl KeyError
      | Some v \<Rightarrow> parse_strftime lib False v (time_filter_template self))"

definition get_updated_state :: "'t pylib \<Rightarrow> stream_attrs \<Rightarrow> pydict \<Rightarrow> pydict \<Rightarrow> pydict result" where
  "get_updated_state lib self current_stream_state latest_record =
     (case latest_benchmark lib self latest_record of
        Inl e \<Rightarrow> Inl e
      | Inr b \<Rightarrow>
          (case get_truthy current_stream_state (cursor_field self) of
             None \<Rightarrow> Inr [cursor_field self \<mapsto> JStr b]
           | Some (JStr w) \<Rightarrow> Inr [cursor_field self \<mapsto> JStr (max b w)]
           | Some _ \<Rightarrow> Inl TypeError))"

text \<open>
  \<^verbatim>\<open>stream_state.get(self.cursor_field) or self._start_date\<close>, with the truth test
  \<^verbatim>\<open>if start_date:\<close> that follows it: the value that is parsed, if any.
\<close>

definition effective_start :: "stream_attrs \<Rightarrow> string option \<Rightarrow> pydict \<Rightarrow> json option" where
  "effective_start self start_date stream_state =
     (case get_truthy stream_state (cursor_field self) of
        Some v \<Rightarrow> Some v
      | None \<Rightarrow>
          (case start_date of
             None \<Rightarrow> None
           | Some d \<Rightarrow> if d \<noteq> [] then Some (JStr d) else None))"

definition IncrementalTwilioStream_request_params ::
  "'t pylib \<Rightarrow> stream_attrs \<Rightarrow> string option \<Rightarrow> pydict \<Rightarrow> pydict option \<Rightarrow> pydict result" where
  "IncrementalTwilioStream_request_params lib self start_date stream_state page_token =
     (let params = TwilioStream_request_params stream_state page_token
      in case effective_start self start_date stream_state of
           None \<Rightarrow> Inr params
         | Some v \<Rightarrow>
             (case parse_strftime lib True v (time_filter_template self) of
                Inl e \<Rightarrow> Inl e
              | Inr formatted \<Rightarrow> Inr (params(incremental_filter_field self \<mapsto> JStr formatted))))"

text \<open>The \<^verbatim>\<open>request_params\<close> an instance of the class answers with (method resolution).\<close>

definition request_params ::
  "'t pylib \<Rightarrow> stream_attrs \<Rightarrow> string option \<Rightarrow> pydict \<Rightarrow> pydict option \<Rightarrow> pydict result" where
  "request_params lib self start_date stream_state page_token =
     (if incremental self
      then IncrementalTwilioStream_request_params lib self start_date stream_state page_token
      else Inr (TwilioStream_request_params stream_state page_token))"

text \<open>
  The state after a sequence of records, \<open>get_updated_state\<close> being called after each
  one; the first error ends the run.
\<close>

fun updated_state_after :: "'t pylib \<Rightarrow> stream_attrs \<Rightarrow> pydict \<Rightarrow> pydict list \<Rightarrow> pydict result" where
  "updated_state_after lib self st [] = Inr st"
| "updated_state_after lib self st (r # rs) =
     (case get_updated_state lib self st r of
        Inl e \<Rightarrow> Inl e
      | Inr st' \<Rightarrow> updated_state_after lib self st' rs)"

section \<open>TwilioNestedStream and its variants\<close>

text \<open>\<^verbatim>\<open>item[key]\<close> on a decoded JSON value.\<close>

definition subscript :: "json \<Rightarrow> string \<Rightarrow> json result" where
  "subscript item key =
     (case item of
        JDict kvs \<Rightarrow> (case map_of kvs key of None \<Rightarrow> Inl KeyError | Some v \<Rightarrow> Inr v)
      | _ \<Rightarrow> Inl TypeError)"

text \<open>\<^verbatim>\<open>stream_slice[key]\<close> on a slice, which is \<^verbatim>\<open>None\<close> for a stream without parent.\<close>

definition slice_subscript :: "pydict option \<Rightarrow> string \<Rightarrow> json result" where
  "slice_subscript stream_slice key =
     (case stream_slice of
        None \<Rightarrow> Inl TypeError
      | Some sl \<Rightarrow> (case sl key of None \<Rightarrow> Inl KeyError | Some v \<Rightarrow> Inr v))"

text \<open>A value inside an f-string.\<close>

definition py_format :: "'t pylib \<Rightarrow> json \<Rightarrow> string" where
  "py_format lib v = (case v of JStr s \<Rightarrow> s | _ \<Rightarrow> format_value lib v)"

definition TwilioNestedStream_path :: "pydict option \<Rightarrow> json result" where
  "TwilioNestedStream_path stream_slice = slice_subscript stream_slice ''subresource_uri''"

text \<open>
  The loop over \<^verbatim>\<open>media_exist_validation.items()\<close>: it stops at the first field of the
  record that is false or equal to its sentinel.
\<close>

fun validated :: "(string \<times> string) list \<Rightarrow> pydict \<Rightarrow> bool" where
  "validated [] item = True"
| "validated (kv # rest) item =
     (case get_truthy item (fst kv) of
        None \<Rightarrow> False
      | Some v \<Rightarrow> if v \<noteq> JStr (snd kv) then validated rest item else False)"

text \<open>What the body of the loop of \<^verbatim>\<open>TwilioNestedStream.stream_slices\<close> yields for one
  record of the parent.\<close>

definition TwilioNestedStream_item_slices :: "stream_attrs \<Rightarrow> json \<Rightarrow> pydict list result" where
  "TwilioNestedStream_item_slices self item =
     (case item of
        JDict kvs \<Rightarrow>
          (case map_of kvs ''subresource_uris'' of
             None \<Rightarrow> Inr []
           | Some (JDict uris) \<Rightarrow>
               (case get_truthy (map_of uris) (subresource_uri_key self) of
                  None \<Rightarrow> Inr []
                | Some uri \<Rightarrow>
                    if validated (media_exist_validation self) (map_of kvs)
                    then Inr [[''subresource_uri'' \<mapsto> uri]]
                    else Inr [])
           | Some _ \<Rightarrow> Inl AttributeError)
      | _ \<Rightarrow> Inl AttributeError)"

definition DependentPhoneNumbers_path :: "'t pylib \<Rightarrow> pydict option \<Rightarrow> json result" where
  "DependentPhoneNumbers_path lib stream_slice =
     (case slice_subscript stream_slice ''account_sid'' of
        Inl e \<Rightarrow> Inl e
      | Inr account_sid \<Rightarrow>
          (case slice_subscript stream_slice ''sid'' of
             Inl e \<Rightarrow> Inl e
           | Inr sid \<Rightarrow>
               Inr (JStr (''Accounts/'' @ py_format lib account_sid @ ''/Addresses/''
                          @ py_format lib sid @ ''/DependentPhoneNumbers.json''))))"

definition DependentPhoneNumbers_item_slices :: "json \<Rightarrow> pydict list result" where
  "DependentPhoneNumbers_item_slices item =
     (case subscript item ''sid'' of
        Inl e \<Rightarrow> Inl e
      | Inr sid \<Rightarrow>
          (case subscript item ''account_sid'' of
             Inl e \<Rightarrow> Inl e
           | Inr account_sid \<Rightarrow> Inr [[''sid'' \<mapsto> sid, ''account_sid'' \<mapsto> account_sid]]))"

definition UsageNestedStream_path :: "'t pylib \<Rightarrow> stream_attrs \<Rightarrow> pydict option \<Rightarrow> json result" where
  "UsageNestedStream_path lib self stream_slice =
     (case slice_subscript stream_slice ''account_sid'' of
        Inl e \<Rightarrow> Inl e
      | Inr account_sid \<Rightarrow>
          Inr (JStr (''Accounts/'' @ py_format lib account_sid @ ''/Usage/''
                     @ path_name self @ ''.json'')))"

definition UsageNestedStream_item_slices :: "json \<Rightarrow> pydict list result" where
  "UsageNestedStream_item_slices item =
     (case subscript item ''sid'' of
        Inl e \<Rightarrow> Inl e
      | Inr sid \<Rightarrow> Inr [[''account_sid'' \<mapsto> sid]])"

definition Alerts_path :: "stream_attrs \<Rightarrow> json result" where
  "Alerts_path self = Inr (JStr (title (name self)))"

text \<open>The \<^verbatim>\<open>path\<close> and the loop body of \<^verbatim>\<open>stream_slices\<close> of a class (method
  resolution).\<close>

definition path :: "'t pylib \<Rightarrow> stream_attrs \<Rightarrow> pydict option \<Rightarrow> json result" where
  "path lib self stream_slice =
     (case kind self of
        TopLevel \<Rightarrow> TwilioStream_path self
      | AlertsPath \<Rightarrow> Alerts_path self
      | Nested \<Rightarrow> TwilioNestedStream_path stream_slice
      | DependentSlices \<Rightarrow> DependentPhoneNumbers_path lib stream_slice
      | UsageNested \<Rightarrow> UsageNestedStream_path lib self stream_slice)"

definition item_slices :: "stream_attrs \<Rightarrow> json \<Rightarrow> pydict list result" where
  "item_slices self item =
     (case kind self of
        DependentSlices \<Rightarrow> DependentPhoneNumbers_item_slices item
      | UsageNested \<Rightarrow> UsageNestedStream_item_slices item
      | _ \<Rightarrow> TwilioNestedStream_item_slices self item)"

section \<open>Reading a parent stream\<close>

text \<open>
  The page fetcher: the URL base, the path and the query parameters of a request give
  the decoded body of the response, or the error of the transport.
\<close>

type_synonym fetcher = "string \<Rightarrow> string \<Rightarrow> pydict \<Rightarrow> json result"

text \<open>
  A generator, as the items it yields until it ends: by returning, by raising, or (in
  the model only) because the count of the pages it may fetch ran out.
\<close>

datatype ending = Exhausted | Raised py_error | Unfinished

type_synonym 'a generator = "'a list \<times> ending"

text \<open>A generator whose body raises or yields all its items at once.\<close>

definition generator_of :: "'a list result \<Rightarrow> 'a generator" where
  "generator_of r = (case r of Inl e \<Rightarrow> ([], Raised e) | Inr xs \<Rightarrow> (xs, Exhausted))"

text \<open>\<^verbatim>\<open>for x in g: yield from f(x)\<close>: the first generator that does not return ends
  the loop, and so does the end of \<open>g\<close>.\<close>

fun yield_from_each :: "('a \<Rightarrow> 'b generator) \<Rightarrow> 'a generator \<Rightarrow> 'b generator" where
  "yield_from_each f ([], e) = ([], e)"
| "yield_from_each f (x # xs, e) =
     (case f x of
        (ys, Exhausted) \<Rightarrow> (case yield_from_each f (xs, e) of (zs, e') \<Rightarrow> (ys @ zs, e'))
      | (ys, e') \<Rightarrow> (ys, e'))"

text \<open>
  Modelled from the spec: the pagination loop of the framework's
  \<^verbatim>\<open>HttpStream.read_records\<close>, which is not in the connector. Per slice it repeats:
  fetch a page with the current parameters, parse and emit its records, compute the
  next token; it continues with the token when there is one and stops otherwise. The
  loop need not end, so the model counts the pages it may still fetch. A page whose
  path is not a string cannot be requested.
\<close>

fun read_pages ::
  "'t pylib \<Rightarrow> fetcher \<Rightarrow> stream_attrs \<Rightarrow> string option \<Rightarrow> pydict option \<Rightarrow> pydict \<Rightarrow>
   nat \<Rightarrow> pydict option \<Rightarrow> json generator" where
  "read_pages lib fetch self start_date stream_slice stream_state 0 page_token = ([], Unfinished)"
| "read_pages lib fetch self start_date stream_slice stream_state (Suc n) page_token =
     (case path lib self stream_slice of
        Inl e \<Rightarrow> ([], Raised e)
      | Inr p \<Rightarrow>
          (case request_params lib self start_date stream_state page_token of
             Inl e \<Rightarrow> ([], Raised e)
           | Inr params \<Rightarrow>
               (case p of
                  JStr url_path \<Rightarrow>
                    (case fetch (url_base self) url_path params of
                       Inl e \<Rightarrow> ([], Raised e)
                     | Inr doc \<Rightarrow>
                         (case parse_response self doc of
                            Inl e \<Rightarrow> ([], Raised e)
                          | Inr records \<Rightarrow>
                              (case next_page_token lib doc of
                                 Inl e \<Rightarrow> (records, Raised e)
                               | Inr None \<Rightarrow> (records, Exhausted)
                               | Inr (Some tok) \<Rightarrow>
                                   if tok = Map.empty then (records, Exhausted)
                                   else (case read_pages lib fetch self start_date stream_slice
                                                stream_state n (Some tok) of
                                           (later, e) \<Rightarrow> (records @ later, e)))))
                | _ \<Rightarrow> ([], Raised TypeError))))"

text \<open>
  Modelled from the spec: \<^verbatim>\<open>read_records\<close> starts with no page token, and with the
  empty state when the caller passes none.
\<close>

definition read_records ::
  "'t pylib \<Rightarrow> fetcher \<Rightarrow> nat \<Rightarrow> stream_attrs \<Rightarrow> string option \<Rightarrow> pydict option \<Rightarrow>
   pydict option \<Rightarrow> json generator" where
  "read_records lib fetch fuel self start_date stream_slice stream_state =
     read_pages lib fetch self start_date stream_slice
       (case stream_state of None \<Rightarrow> Map.empty | Some st \<Rightarrow> st) fuel None"

text \<open>
  \<^verbatim>\<open>stream_slices\<close> of the three nested classes: the parent class is instantiated with
  the authenticator alone (so without start date); for every slice of the parent,
  every record that \<^verbatim>\<open>read_records\<close> gives, called without a state, goes through the
  loop body of the class. Modelled from the spec: a stream without parent keeps the
  framework's \<^verbatim>\<open>stream_slices\<close>, which yields the one slice \<^verbatim>\<open>None\<close>.
\<close>

fun stream_slices :: "'t pylib \<Rightarrow> fetcher \<Rightarrow> nat \<Rightarrow> stream \<Rightarrow> pydict option generator" where
  "stream_slices lib fetch fuel (Stream self parent) =
     (if kind self = TopLevel \<or> kind self = AlertsPath then ([None], Exhausted)
      else (case parent of
              None \<Rightarrow> ([], Raised TypeError)
            | Some stream_instance \<Rightarrow>
                yield_from_each
                  (\<lambda>stream_slice.
                     yield_from_each
                       (\<lambda>item. generator_of (map_sum id (map Some) (item_slices self item)))
                       (read_records lib fetch fuel (attrs stream_instance) None stream_slice None))
                  (stream_slices lib fetch fuel stream_instance)))"

section \<open>The stream classes of the connector\<close>

text \<open>
  The class attributes inherited from \<^verbatim>\<open>TwilioStream\<close>, from
  \<^verbatim>\<open>TwilioNestedStream\<close>, from \<^verbatim>\<open>UsageNestedStream\<close> and (mixed in) from
  \<^verbatim>\<open>IncrementalTwilioStream\<close>; a class then overrides some of them. The name of a
  stream is its class name in snake case. \<^verbatim>\<open>UsageNestedStream\<close> stands before
  \<^verbatim>\<open>IncrementalTwilioStream\<close> among the bases of \<^verbatim>\<open>UsageRecords\<close>, so its time
  template is the one of the usage streams.
\<close>

definition TwilioStream_attrs :: "string \<Rightarrow> stream_attrs" where
  "TwilioStream_attrs nm =
     \<lparr>name = nm, kind = TopLevel, url_base = ''https://api.twilio.com/2010-04-01/'',
      data_field_attr = None, subresource_uri_key_attr = None, media_exist_validation = [],
      incremental = False, cursor_field = [], time_filter_template = [],
      incremental_filter_field = [], path_name = []\<rparr>"

definition TwilioNestedStream_attrs :: "string \<Rightarrow> stream_attrs" where
  "TwilioNestedStream_attrs nm =
     (TwilioStream_attrs nm)\<lparr>kind := Nested, url_base := ''https://api.twilio.com''\<rparr>"

definition UsageNestedStream_attrs :: "string \<Rightarrow> string \<Rightarrow> stream_attrs" where
  "UsageNestedStream_attrs nm pn =
     (TwilioNestedStream_attrs nm)\<lparr>kind := UsageNested,
        url_base := ''https://api.twilio.com/2010-04-01/'', time_filter_template := ''%Y-%m-%d'',
        path_name := pn\<rparr>"

definition IncrementalTwilioStream_attrs :: "string \<Rightarrow> stream_attrs \<Rightarrow> stream_attrs" where
  "IncrementalTwilioStream_attrs filter_field a =
     a\<lparr>incremental := True, cursor_field := ''date_updated'',
       time_filter_template := ''%Y-%m-%dT%H:%M:%SZ'',
       incremental_filter_field := filter_field\<rparr>"

definition Accounts :: stream where
  "Accounts = Stream (TwilioStream_attrs ''accounts'') None"

definition Addresses :: stream where
  "Addresses = Stream (TwilioNestedStream_attrs ''addresses'') (Some Accounts)"

definition DependentPhoneNumbers :: stream where
  "DependentPhoneNumbers =
     Stream ((TwilioNestedStream_attrs ''dependent_phone_numbers'')\<lparr>kind := DependentSlices,
               url_base := ''https://api.twilio.com/2010-04-01/''\<rparr>)
            (Some Addresses)"

definition Calls :: stream where
  "Calls =
     Stream ((IncrementalTwilioStream_attrs ''EndTime>'' (TwilioNestedStream_attrs ''calls''))
               \<lparr>cursor_field := ''end_time''\<rparr>)
            (Some Accounts)"

definition Conferences :: stream where
  "Conferences =
     Stream (IncrementalTwilioStream_attrs ''DateUpdated>='' (TwilioNestedStream_attrs ''conferences''))
            (Some Accounts)"

definition ConferenceParticipants :: stream where
  "ConferenceParticipants =
     Stream ((TwilioNestedStream_attrs ''conference_participants'')
               \<lparr>data_field_attr := Some ''participants''\<rparr>)
            (Some Conferences)"

definition Messages :: stream where
  "Messages =
     Stream ((IncrementalTwilioStream_attrs ''DateSent>'' (TwilioNestedStream_attrs ''messages''))
               \<lparr>cursor_field := ''date_sent''\<rparr>)
            (Some Accounts)"

definition MessageMedia :: stream where
  "MessageMedia =
     Stream ((IncrementalTwilioStream_attrs ''StartTime>='' (TwilioNestedStream_attrs ''message_media''))
               \<lparr>data_field_attr := Some ''media_list'', subresource_uri_key_attr := Some ''media'',
                media_exist_validation := [(''num_media'', ''0'')]\<rparr>)
            (Some Messages)"

definition UsageRecords :: stream where
  "UsageRecords =
     Stream ((IncrementalTwilioStream_attrs ''EndDate'' (UsageNestedStream_attrs ''usage_records'' ''Records''))
               \<lparr>cursor_field := ''end_date'', time_filter_template := ''%Y-%m-%d''\<rparr>)
            (Some Accounts)"

definition UsageTriggers :: stream where
  "UsageTriggers =
     Stream ((UsageNestedStream_attrs ''usage_triggers'' ''Triggers'')
               \<lparr>subresource_uri_key_attr := Some ''triggers''\<rparr>)
            (Some Accounts)"

definition Alerts :: stream where
  "Alerts =
     Stream ((IncrementalTwilioStream_attrs ''StartDate'' (TwilioStream_attrs ''alerts''))
               \<lparr>kind := AlertsPath, url_base := ''https://monitor.twilio.com/v1/''\<rparr>)
            None"

section \<open>A reference instance of the library\<close>

text \<open>
  The examples are evaluated with this instance of the library parameter. It reads the
  UTC timestamps \<^verbatim>\<open>YYYY-MM-DDTHH:MM:SSZ\<close> and the dates \<^verbatim>\<open>YYYY-MM-DD\<close> (and
  nothing else), formats with the directives \<^verbatim>\<open>%Y %m %d %H %M %S %%\<close>, decodes
  percent escapes byte by byte, accepts a network location whose square brackets come
  in pairs, and formats integers, booleans and \<^verbatim>\<open>None\<close> as Python prints them. No
  theorem but the closed examples depends on it.
\<close>

datatype civil_time =
  CivilTime (year: nat) (month: nat) (day: nat) (hour: nat) (minute: nat) (second: nat)

definition digit_of :: "char \<Rightarrow> nat option" where
  "digit_of c =
     map_of [(CHR ''0'', 0), (CHR ''1'', 1), (CHR ''2'', 2), (CHR ''3'', 3), (CHR ''4'', 4),
             (CHR ''5'', 5), (CHR ''6'', 6), (CHR ''7'', 7), (CHR ''8'', 8), (CHR ''9'', 9)] c"

definition number_of :: "string \<Rightarrow> nat option" where
  "number_of s =
     (if s = [] then None
      else fold (\<lambda>c acc. case acc of
                            None \<Rightarrow> None
                          | Some a \<Rightarrow> (case digit_of c of None \<Rightarrow> None | Some d \<Rightarrow> Some (10 * a + d)))
             s (Some 0))"

definition days_in_month :: "nat \<Rightarrow> nat \<Rightarrow> nat" where
  "days_in_month y m =
     (if m = 2 then (if y mod 4 = 0 \<and> (y mod 100 \<noteq> 0 \<or> y mod 400 = 0) then 29 else 28)
      else if m = 4 \<or> m = 6 \<or> m = 9 \<or> m = 11 then 30 else 31)"

definition ref_date :: "string \<Rightarrow> (nat \<times> nat \<times> nat) option" where
  "ref_date s =
     (if length s = 10 \<and> s ! 4 = CHR ''-'' \<and> s ! 7 = CHR ''-''
      then (case number_of (take 4 s) of
              None \<Rightarrow> None
            | Some y \<Rightarrow>
                (case number_of (take 2 (drop 5 s)) of
                   None \<Rightarrow> None
                 | Some m \<Rightarrow>
                     (case number_of (drop 8 s) of
                        None \<Rightarrow> None
                      | Some d \<Rightarrow>
                          if 1 \<le> m \<and> m \<le> 12 \<and> 1 \<le> d \<and> d \<le> days_in_month y m
                          then Some (y, m, d) else None)))
      else None)"

definition ref_clock :: "string \<Rightarrow> (nat \<times> nat \<times> nat) option" where
  "ref_clock s =
     (if length s = 8 \<and> s ! 2 = CHR '':'' \<and> s ! 5 = CHR '':''
      then (case number_of (take 2 s) of
              None \<Rightarrow> None
            | Some h \<Rightarrow>
                (case number_of (take 2 (drop 3 s)) of
                   None \<Rightarrow> None
                 | Some mi \<Rightarrow>
                     (case number_of (drop 6 s) of
                        None \<Rightarrow> None
                      | Some se \<Rightarrow>
                          if h < 24 \<and> mi < 60 \<and> se < 60 then Some (h, mi, se) else None)))
      else None)"

definition ref_parse :: "string \<Rightarrow> civil_time result" where
  "ref_parse s =
     (if length s = 10
      then (case ref_date s of
              None \<Rightarrow> Inl ParserError
            | Some (y, m, d) \<Rightarrow> Inr (CivilTime y m d 0 0 0))
      else if length s = 20 \<and> s ! 10 = CHR ''T'' \<and> s ! 19 = CHR ''Z''
      then (case ref_date (take 10 s) of
              None \<Rightarrow> Inl ParserError
            | Some (y, m, d) \<Rightarrow>
                (case ref_clock (take 8 (drop 11 s)) of
                   None \<Rightarrow> Inl ParserError
                 | Some (h, mi, se) \<Rightarrow> Inr (CivilTime y m d h mi se)))
      else Inl ParserError)"

definition digit_char :: "nat \<Rightarrow> char" where
  "digit_char n = ''0123456789'' ! (n mod 10)"

definition pad2 :: "nat \<Rightarrow> string" where
  "pad2 n = [digit_char (n div 10), digit_char n]"

definition pad4 :: "nat \<Rightarrow> string" where
  "pad4 n = [digit_char (n div 1000), digit_char (n div 100), digit_char (n div 10), digit_char n]"

definition ref_directive :: "civil_time \<Rightarrow> char \<Rightarrow> string" where
  "ref_directive t d =
     (if d = CHR ''Y'' then pad4 (year t)
      else if d = CHR ''m'' then pad2 (month t)
      else if d = CHR ''d'' then pad2 (day t)
      else if d = CHR ''H'' then pad2 (hour t)
      else if d = CHR ''M'' then pad2 (minute t)
      else if d = CHR ''S'' then pad2 (second t)
      else if d = CHR ''%'' then ''%''
      else [CHR ''%'', d])"

fun ref_strftime :: "civil_time \<Rightarrow> string \<Rightarrow> string" where
  "ref_strftime t (c # d # rest) =
     (if c = CHR ''%'' then ref_directive t d @ ref_strftime t rest
      else c # ref_strftime t (d # rest))"
| "ref_strftime t s = s"

definition hex_of :: "char \<Rightarrow> nat option" where
  "hex_of c =
     (case digit_of c of
        Some d \<Rightarrow> Some d
      | None \<Rightarrow>
          map_of [(CHR ''a'', 10), (CHR ''b'', 11), (CHR ''c'', 12), (CHR ''d'', 13), (CHR ''e'', 14),
                  (CHR ''f'', 15), (CHR ''A'', 10), (CHR ''B'', 11), (CHR ''C'', 12), (CHR ''D'', 13),
                  (CHR ''E'', 14), (CHR ''F'', 15)] c)"

fun ref_unquote :: "string \<Rightarrow> string" where
  "ref_unquote (c # a # b # rest) =
     (if c = CHR ''%'' then
        (case hex_of a of
           None \<Rightarrow> c # ref_unquote (a # b # rest)
         | Some x \<Rightarrow>
             (case hex_of b of
                None \<Rightarrow> c # ref_unquote (a # b # rest)
              | Some y \<Rightarrow> char_of (16 * x + y) # ref_unquote rest))
      else c # ref_unquote (a # b # rest))"
| "ref_unquote s = s"

definition ref_netloc_ok :: "string \<Rightarrow> bool" where
  "ref_netloc_ok n = ((CHR ''['' \<in> set n) = (CHR '']'' \<in> set n))"

fun show_nat :: "nat \<Rightarrow> string" where
  "show_nat n = (if n < 10 then [digit_char n] else show_nat (n div 10) @ [digit_char n])"

definition ref_format_value :: "json \<Rightarrow> string" where
  "ref_format_value v =
     (case v of
        JNull \<Rightarrow> ''None''
      | JBool b \<Rightarrow> (if b then ''True'' else ''False'')
      | JInt n \<Rightarrow> (if n < 0 then CHR ''-'' # show_nat (nat (- n)) else show_nat (nat n))
      | JStr s \<Rightarrow> s
      | JList xs \<Rightarrow> ''[...]''
      | JDict kvs \<Rightarrow> ''{...}'')"

definition ref_lib :: "civil_time pylib" where
  "ref_lib =
     \<lparr>pendulum_parse = (\<lambda>strict text. ref_parse text),
      strftime = (\<lambda>t template. Inr (ref_strftime t template)),
      unquote_escapes = ref_unquote,
      netloc_ok = ref_netloc_ok,
      format_value = ref_format_value\<rparr>"

section \<open>Notions used in the statements\<close>

text \<open>
  The watermark a state holds for the stream: the string under the cursor field, if it
  is not empty. A state is comparable when what it holds under the cursor field is a
  string or counts as false, so that \<^verbatim>\<open>max\<close> never compares a string with a value of
  another type.
\<close>

definition prior_watermark :: "stream_attrs \<Rightarrow> pydict \<Rightarrow> string option" where
  "prior_watermark self st =
     (case get_truthy st (cursor_field self) of Some (JStr w) \<Rightarrow> Some w | _ \<Rightarrow> None)"

definition comparable_state :: "stream_attrs \<Rightarrow> pydict \<Rightarrow> bool" where
  "comparable_state self st =
     (case get_truthy st (cursor_field self) of
        None \<Rightarrow> True
      | Some (JStr w) \<Rightarrow> True
      | Some _ \<Rightarrow> False)"

definition advanced :: "string \<Rightarrow> string option \<Rightarrow> string" where
  "advanced b prior = (case prior of None \<Rightarrow> b | Some w \<Rightarrow> max b w)"

text \<open>One validation rule holds of a record: the field is there, counts as true and is
  not the sentinel.\<close>

definition field_passes :: "pydict \<Rightarrow> string \<times> string \<Rightarrow> bool" where
  "field_passes item kv =
     (case get_truthy item (fst kv) of None \<Rightarrow> False | Some v \<Rightarrow> v \<noteq> JStr (snd kv))"

text \<open>
  A relative URL with a query string is \<open>p @ ''?'' @ q\<close>, where the path \<open>p\<close> starts
  with one slash and holds neither \<^verbatim>\<open>?\<close> nor \<^verbatim>\<open>#\<close>, and no character of the URL is a
  \<^verbatim>\<open>#\<close>, a tab, a carriage return or a line feed. Every query string is its fields
  joined by \<^verbatim>\<open>&\<close>, as \<^verbatim>\<open>'&'.join(fields)\<close> joins them.
\<close>

definition url_char :: "char \<Rightarrow> bool" where
  "url_char c = (c \<noteq> CHR ''#'' \<and> c \<noteq> CHR 0x09 \<and> c \<noteq> CHR 0x0D \<and> c \<noteq> CHR 0x0A)"

definition relative_path :: "string \<Rightarrow> bool" where
  "relative_path p =
     (p \<noteq> [] \<and> hd p = CHR ''/'' \<and> take 2 p \<noteq> ''//''
      \<and> list_all (\<lambda>c. url_char c \<and> c \<noteq> CHR ''?'') p)"

fun join_fields :: "string list \<Rightarrow> string" where
  "join_fields [] = []"
| "join_fields [f] = f"
| "join_fields (f # fs) = f @ CHR ''&'' # join_fields fs"

text \<open>The class without \<^verbatim>\<open>IncrementalTwilioStream\<close> among its bases.\<close>

definition non_incremental :: "stream \<Rightarrow> stream" where
  "non_incremental s = Stream ((attrs s)\<lparr>incremental := False\<rparr>) (parent_stream s)"

text \<open>
  A page fetcher for the examples: one account, which has one conference. It answers a
  request only when its parameters are the page size alone.
\<close>

definition demo_fetch :: fetcher where
  "demo_fetch base p params =
     (if base = ''https://api.twilio.com/2010-04-01/'' \<and> p = ''Accounts.json''
         \<and> params = [''PageSize'' \<mapsto> JInt 100]
      then Inr (JDict [(''accounts'',
                  JList [JDict [(''sid'', JStr ''AC1''),
                                (''subresource_uris'',
                                 JDict [(''conferences'',
                                         JStr ''/2010-04-01/Accounts/AC1/Conferences.json'')])]])])
      else if base = ''https://api.twilio.com'' \<and> p = ''/2010-04-01/Accounts/AC1/Conferences.json''
         \<and> params = [''PageSize'' \<mapsto> JInt 100]
      then Inr (JDict [(''conferences'',
                  JList [JDict [(''sid'', JStr ''CF1''),
                                (''date_updated'', JStr ''2021-06-01T00:00:00Z''),
                                (''subresource_uris'',
                                 JDict [(''participants'',
                                         JStr ''/2010-04-01/Accounts/AC1/Conferences/CF1/Participants.json'')])]]),
                       (''next_page_uri'', JNull)])
      else Inl HTTPError)"

section \<open>Evaluating the stream classes and the reference library\<close>

lemmas stream_class_defs =
  Accounts_def Addresses_def DependentPhoneNumbers_def Calls_def Conferences_def
  ConferenceParticipants_def Messages_def MessageMedia_def UsageRecords_def UsageTriggers_def
  Alerts_def IncrementalTwilioStream_attrs_def UsageNestedStream_attrs_def
  TwilioNestedStream_attrs_def TwilioStream_attrs_def data_field_def subresource_uri_key_def

lemmas ref_time_defs =
  parse_strftime_def ref_lib_def ref_parse_def ref_date_def ref_clock_def number_of_def
  digit_of_def days_in_month_def ref_directive_def pad2_def pad4_def digit_char_def

section \<open>The state of an incremental stream\<close>

text \<open>
  C4. A record that does not contain the stream's cursor field makes
  \<open>get_updated_state\<close> raise (the subscript raises \<^verbatim>\<open>KeyError\<close>), whatever the
  stream, the prior state and the library: no state is returned.
\<close>

theorem get_updated_state_missing_cursor:
  assumes "latest_record (cursor_field self) = None"
  shows "get_updated_state lib self current_stream_state latest_record = Inl KeyError"
  using assms by (simp add: get_updated_state_def latest_benchmark_def)

theorem get_updated_state_missing_cursor_witness:
  "[''sid'' \<mapsto> JStr ''CA1''] (cursor_field (attrs Calls)) = None
   \<and> get_updated_state ref_lib (attrs Calls) [''end_time'' \<mapsto> JStr ''2021-06-01T00:00:00Z'']
        [''sid'' \<mapsto> JStr ''CA1''] = Inl KeyError"
  using get_updated_state_missing_cursor
    [of "[''sid'' \<mapsto> JStr ''CA1'']" "attrs Calls" ref_lib
        "[''end_time'' \<mapsto> JStr ''2021-06-01T00:00:00Z'']"]
  by (simp add: stream_class_defs)

text \<open>
  C10. A state that \<open>get_updated_state\<close> returns has exactly one key, the cursor field
  of the stream: every other key of the prior state is gone from it.
\<close>

theorem get_updated_state_replaces_state:
  assumes "get_updated_state lib self current_stream_state latest_record = Inr st'"
  shows "dom st' = {cursor_field self} \<and> (\<forall>k. k \<noteq> cursor_field self \<longrightarrow> st' k = None)"
  using assms
  by (auto simp: get_updated_state_def split: sum.splits option.splits json.splits if_splits)

theorem get_updated_state_replaces_state_witness:
  "get_updated_state ref_lib (attrs Calls)
     [''end_time'' \<mapsto> JStr ''2021-06-01T00:00:00Z'', ''page'' \<mapsto> JInt 7]
     [''end_time'' \<mapsto> JStr ''2021-07-15T08:30:00Z'', ''sid'' \<mapsto> JStr ''CA1'']
   = Inr [''end_time'' \<mapsto> JStr ''2021-07-15T08:30:00Z'']
   \<and> dom [''end_time'' \<mapsto> JStr ''2021-07-15T08:30:00Z''] = {cursor_field (attrs Calls)}
   \<and> [''end_time'' \<mapsto> JStr ''2021-07-15T08:30:00Z''] ''page'' = None"
proof -
  have run: "get_updated_state ref_lib (attrs Calls)
     [''end_time'' \<mapsto> JStr ''2021-06-01T00:00:00Z'', ''page'' \<mapsto> JInt 7]
     [''end_time'' \<mapsto> JStr ''2021-07-15T08:30:00Z'', ''sid'' \<mapsto> JStr ''CA1'']
   = Inr [''end_time'' \<mapsto> JStr ''2021-07-15T08:30:00Z'']"
    by (simp add: get_updated_state_def latest_benchmark_def get_truthy_def
          stream_class_defs ref_time_defs)
  from get_updated_state_replaces_state [OF run] run show ?thesis
    by (simp add: stream_class_defs)
qed

lemma get_updated_state_step:
  assumes "comparable_state self st" and "latest_benchmark lib self r = Inr b"
  shows "get_updated_state lib self st r
         = Inr [cursor_field self \<mapsto> JStr (advanced b (prior_watermark self st))]"
  using assms
  by (auto simp: get_updated_state_def comparable_state_def prior_watermark_def advanced_def
           split: option.splits json.splits)

lemma prior_watermark_single:
  "prior_watermark self [cursor_field self \<mapsto> JStr w] = (if w = [] then None else Some w)"
  by (simp add: prior_watermark_def get_truthy_def)

lemma comparable_single: "comparable_state self [cursor_field self \<mapsto> JStr w]"
  by (simp add: comparable_state_def get_truthy_def)

lemma Max_insert_empty_string:
  assumes "finite A" "A \<noteq> {}"
  shows "Max (insert ([]::string) A) = Max A"
  using assms by (simp add: max_def)

lemma updated_state_after_Max:
  assumes "comparable_state self st" and "map (latest_benchmark lib self) rs = map Inr bs" and "rs \<noteq> []"
  shows "updated_state_after lib self st rs
         = Inr [cursor_field self \<mapsto> JStr (Max (set bs \<union> set_option (prior_watermark self st)))]"
  using assms
proof (induction rs arbitrary: st bs)
  case Nil
  then show ?case by simp
next
  case (Cons r rs)
  then obtain b bs' where bs: "bs = b # bs'" and b: "latest_benchmark lib self r = Inr b"
    and rest: "map (latest_benchmark lib self) rs = map Inr bs'"
    by (cases bs) auto
  let ?w = "advanced b (prior_watermark self st)"
  let ?st = "[cursor_field self \<mapsto> JStr ?w]"
  have step: "get_updated_state lib self st r = Inr ?st"
    using Cons.prems(1) b by (rule get_updated_state_step)
  have w: "?w = Max (insert b (set_option (prior_watermark self st)))"
    by (cases "prior_watermark self st") (simp_all add: advanced_def max.commute)
  show ?case
  proof (cases "rs = []")
    case True
    with rest have "bs' = []" by simp
    with bs have "set bs \<union> set_option (prior_watermark self st)
                  = insert b (set_option (prior_watermark self st))"
      by simp
    with w have "Max (set bs \<union> set_option (prior_watermark self st)) = ?w"
      by simp
    moreover have "updated_state_after lib self st (r # rs) = Inr ?st"
      using True step by simp
    ultimately show ?thesis by (simp only:)
  next
    case False
    with rest have ne: "bs' \<noteq> []" by auto
    have "updated_state_after lib self ?st rs
          = Inr [cursor_field self \<mapsto> JStr (Max (set bs' \<union> set_option (prior_watermark self ?st)))]"
      using comparable_single rest False by (rule Cons.IH)
    moreover have "Max (set bs' \<union> set_option (prior_watermark self ?st))
                   = Max (set bs \<union> set_option (prior_watermark self st))"
    proof -
      have "Max (set bs' \<union> set_option (prior_watermark self ?st)) = Max (insert ?w (set bs'))"
        using ne by (simp add: prior_watermark_single Max_insert_empty_string)
      also have "\<dots> = max ?w (Max (set bs'))"
        using ne by simp
      also have "\<dots> = Max (insert b (set_option (prior_watermark self st)) \<union> set bs')"
        using ne by (subst Max_Un) (simp_all add: w)
      also have "insert b (set_option (prior_watermark self st)) \<union> set bs'
                 = set bs \<union> set_option (prior_watermark self st)"
        using bs by auto
      finally show ?thesis .
    qed
    moreover have "updated_state_after lib self st (r # rs) = updated_state_after lib self ?st rs"
      using step by simp
    ultimately show ?thesis by (simp only:)
  qed
qed

lemma latest_benchmark_parsed:
  assumes "r (cursor_field self) = Some (JStr cursor_text)"
    and "pendulum_parse lib False cursor_text = Inr t"
    and "strftime lib t (time_filter_template self) = Inr b"
  shows "latest_benchmark lib self r = Inr b"
  using assms by (simp add: latest_benchmark_def parse_strftime_def)

lemma latest_benchmark_maps:
  assumes "map (\<lambda>r. r (cursor_field self)) rs = map (\<lambda>x. Some (JStr x)) texts"
    and "map (pendulum_parse lib False) texts = map Inr ts"
    and "map (\<lambda>t. strftime lib t (time_filter_template self)) ts = map Inr bs"
  shows "map (latest_benchmark lib self) rs = map Inr bs"
  using assms
proof (induction rs arbitrary: texts ts bs)
  case Nil
  then show ?case by auto
next
  case (Cons r rs)
  from Cons.prems(1) obtain x texts' where texts: "texts = x # texts'"
    and r: "r (cursor_field self) = Some (JStr x)"
    and rest1: "map (\<lambda>r. r (cursor_field self)) rs = map (\<lambda>x. Some (JStr x)) texts'"
    by (cases texts) auto
  from Cons.prems(2) texts obtain t ts' where ts: "ts = t # ts'"
    and t: "pendulum_parse lib False x = Inr t"
    and rest2: "map (pendulum_parse lib False) texts' = map Inr ts'"
    by (cases ts) auto
  from Cons.prems(3) ts obtain b bs' where bs: "bs = b # bs'"
    and b: "strftime lib t (time_filter_template self) = Inr b"
    and rest3: "map (\<lambda>t. strftime lib t (time_filter_template self)) ts' = map Inr bs'"
    by (cases bs) auto
  have "latest_benchmark lib self r = Inr b"
    using r t b by (rule latest_benchmark_parsed)
  moreover have "map (latest_benchmark lib self) rs = map Inr bs'"
    using rest1 rest2 rest3 by (rule Cons.IH)
  ultimately show ?case by (simp add: bs)
qed

text \<open>
  C2. Let the record hold the string \<open>cursor_text\<close> under the cursor field of the
  stream, let \<^verbatim>\<open>pendulum.parse(cursor_text, strict=False)\<close> give \<open>t\<close> and let \<open>t\<close>
  format to \<open>b\<close> by the time template of the stream. For a state that is comparable,
  \<open>get_updated_state\<close> returns the watermark \<open>max b w\<close> when the prior state holds a
  watermark \<open>w\<close>, and \<open>b\<close> when it holds none; the maximum is the one of strings. So
  calling it after each record of a non-empty sequence, whose cursor texts parse and
  format to \<open>bs\<close> in the same way, ends with the maximum of \<open>bs\<close> and the prior
  watermark, whatever the order of the records; and neither result is below the prior
  watermark.
\<close>

theorem get_updated_state_watermark_max:
  assumes "comparable_state self st"
    and "r (cursor_field self) = Some (JStr cursor_text)"
    and "pendulum_parse lib False cursor_text = Inr t"
    and "strftime lib t (time_filter_template self) = Inr b"
    and "map (\<lambda>r. r (cursor_field self)) rs = map (\<lambda>x. Some (JStr x)) texts"
    and "map (pendulum_parse lib False) texts = map Inr ts"
    and "map (\<lambda>t. strftime lib t (time_filter_template self)) ts = map Inr bs"
    and "rs \<noteq> []"
  shows "get_updated_state lib self st r
           = Inr [cursor_field self \<mapsto> JStr (advanced b (prior_watermark self st))]
         \<and> updated_state_after lib self st rs
           = Inr [cursor_field self \<mapsto> JStr (Max (set bs \<union> set_option (prior_watermark self st)))]
         \<and> (case prior_watermark self st of
               None \<Rightarrow> True
             | Some w \<Rightarrow> w \<le> advanced b (prior_watermark self st)
                         \<and> w \<le> Max (set bs \<union> set_option (prior_watermark self st)))"
proof (intro conjI)
  have one: "latest_benchmark lib self r = Inr b"
    using assms(2,3,4) by (rule latest_benchmark_parsed)
  have all: "map (latest_benchmark lib self) rs = map Inr bs"
    using assms(5,6,7) by (rule latest_benchmark_maps)
  show "get_updated_state lib self st r
           = Inr [cursor_field self \<mapsto> JStr (advanced b (prior_watermark self st))]"
    using assms(1) one by (rule get_updated_state_step)
  show "updated_state_after lib self st rs
           = Inr [cursor_field self \<mapsto> JStr (Max (set bs \<union> set_option (prior_watermark self st)))]"
    using assms(1) all assms(8) by (rule updated_state_after_Max)
  show "case prior_watermark self st of
               None \<Rightarrow> True
             | Some w \<Rightarrow> w \<le> advanced b (prior_watermark self st)
                         \<and> w \<le> Max (set bs \<union> set_option (prior_watermark self st))"
    by (cases "prior_watermark self st") (simp_all add: advanced_def)
qed

theorem get_updated_state_watermark_max_witness:
  "comparable_state (attrs Calls) [''end_time'' \<mapsto> JStr ''2021-06-01T00:00:00Z'']
   \<and> pendulum_parse ref_lib False ''2021-01-01'' = Inr (CivilTime 2021 1 1 0 0 0)
   \<and> strftime ref_lib (CivilTime 2021 1 1 0 0 0) (time_filter_template (attrs Calls))
       = Inr ''2021-01-01T00:00:00Z''
   \<and> get_updated_state ref_lib (attrs Calls) [''end_time'' \<mapsto> JStr ''2021-06-01T00:00:00Z'']
         [''sid'' \<mapsto> JStr ''CA1'', ''end_time'' \<mapsto> JStr ''2021-01-01'']
       = Inr [''end_time'' \<mapsto> JStr ''2021-06-01T00:00:00Z'']
   \<and> updated_state_after ref_lib (attrs Calls) [''end_time'' \<mapsto> JStr ''2021-06-01T00:00:00Z'']
         [[''end_time'' \<mapsto> JStr ''2021-01-01''],
          [''end_time'' \<mapsto> JStr ''2021-07-15''],
          [''end_time'' \<mapsto> JStr ''2021-03-05T12:00:00Z'']]
       = Inr [''end_time'' \<mapsto> JStr ''2021-07-15T00:00:00Z'']"
proof -
  have f: "cursor_field (attrs Calls) = ''end_time''"
    "time_filter_template (attrs Calls) = ''%Y-%m-%dT%H:%M:%SZ''"
    by (simp_all add: stream_class_defs)
  have a: "comparable_state (attrs Calls) [''end_time'' \<mapsto> JStr ''2021-06-01T00:00:00Z'']"
    by (simp add: comparable_state_def get_truthy_def f)
  have b: "[''sid'' \<mapsto> JStr ''CA1'', ''end_time'' \<mapsto> JStr ''2021-01-01''] (cursor_field (attrs Calls))
           = Some (JStr ''2021-01-01'')"
    by (simp add: f)
  have c: "pendulum_parse ref_lib False ''2021-01-01'' = Inr (CivilTime 2021 1 1 0 0 0)"
    by (simp add: ref_time_defs)
  have d: "strftime ref_lib (CivilTime 2021 1 1 0 0 0) (time_filter_template (attrs Calls))
       = Inr ''2021-01-01T00:00:00Z''"
    by (simp add: f ref_time_defs)
  have e: "map (\<lambda>r. r (cursor_field (attrs Calls)))
             [[''end_time'' \<mapsto> JStr ''2021-01-01''],
              [''end_time'' \<mapsto> JStr ''2021-07-15''],
              [''end_time'' \<mapsto> JStr ''2021-03-05T12:00:00Z'']]
           = map (\<lambda>x. Some (JStr x)) [''2021-01-01'', ''2021-07-15'', ''2021-03-05T12:00:00Z'']"
    by (simp add: f)
  have g: "map (pendulum_parse ref_lib False) [''2021-01-01'', ''2021-07-15'', ''2021-03-05T12:00:00Z'']
           = map Inr [CivilTime 2021 1 1 0 0 0, CivilTime 2021 7 15 0 0 0, CivilTime 2021 3 5 12 0 0]"
    by (simp add: ref_time_defs)
  have h: "map (\<lambda>t. strftime ref_lib t (time_filter_template (attrs Calls)))
             [CivilTime 2021 1 1 0 0 0, CivilTime 2021 7 15 0 0 0, CivilTime 2021 3 5 12 0 0]
           = map Inr [''2021-01-01T00:00:00Z'', ''2021-07-15T00:00:00Z'', ''2021-03-05T12:00:00Z'']"
    by (simp add: f ref_time_defs)
  have i: "[[''end_time'' \<mapsto> JStr ''2021-01-01''],
            [''end_time'' \<mapsto> JStr ''2021-07-15''],
            [''end_time'' \<mapsto> JStr ''2021-03-05T12:00:00Z'']] \<noteq> []"
    by simp
  have w: "prior_watermark (attrs Calls) [''end_time'' \<mapsto> JStr ''2021-06-01T00:00:00Z'']
           = Some ''2021-06-01T00:00:00Z''"
    by (simp add: prior_watermark_def get_truthy_def f)
  note run = get_updated_state_watermark_max
            [where self = "attrs Calls" and lib = ref_lib
               and st = "[''end_time'' \<mapsto> JStr ''2021-06-01T00:00:00Z'']"
               and r = "[''sid'' \<mapsto> JStr ''CA1'', ''end_time'' \<mapsto> JStr ''2021-01-01'']"
               and cursor_text = "''2021-01-01''" and t = "CivilTime 2021 1 1 0 0 0"
               and b = "''2021-01-01T00:00:00Z''"
               and rs = "[[''end_time'' \<mapsto> JStr ''2021-01-01''],
                          [''end_time'' \<mapsto> JStr ''2021-07-15''],
                          [''end_time'' \<mapsto> JStr ''2021-03-05T12:00:00Z'']]"
               and texts = "[''2021-01-01'', ''2021-07-15'', ''2021-03-05T12:00:00Z'']"
               and ts = "[CivilTime 2021 1 1 0 0 0, CivilTime 2021 7 15 0 0 0, CivilTime 2021 3 5 12 0 0]"
               and bs = "[''2021-01-01T00:00:00Z'', ''2021-07-15T00:00:00Z'', ''2021-03-05T12:00:00Z'']",
             OF a b c d e g h i]
  have r1: "get_updated_state ref_lib (attrs Calls) [''end_time'' \<mapsto> JStr ''2021-06-01T00:00:00Z'']
         [''sid'' \<mapsto> JStr ''CA1'', ''end_time'' \<mapsto> JStr ''2021-01-01'']
       = Inr [''end_time'' \<mapsto> JStr ''2021-06-01T00:00:00Z'']"
    using run [THEN conjunct1] by (simp add: w f advanced_def)
  have r2: "updated_state_after ref_lib (attrs Calls) [''end_time'' \<mapsto> JStr ''2021-06-01T00:00:00Z'']
         [[''end_time'' \<mapsto> JStr ''2021-01-01''],
          [''end_time'' \<mapsto> JStr ''2021-07-15''],
          [''end_time'' \<mapsto> JStr ''2021-03-05T12:00:00Z'']]
       = Inr [''end_time'' \<mapsto> JStr ''2021-07-15T00:00:00Z'']"
    using run [THEN conjunct2, THEN conjunct1] by (simp add: w f)
  show ?thesis
    by (intro conjI a c d r1 r2)
qed

section \<open>The records of a response\<close>

text \<open>
  C5. When the record-extraction key of the stream is absent from the response
  document, \<open>parse_response\<close> returns the empty sequence and raises nothing; when the
  key holds an array, it returns the elements of the array, in order.
\<close>

theorem parse_response_data_field:
  "(map_of d (data_field self) = None \<longrightarrow> parse_response self (JDict d) = Inr [])
   \<and> (map_of d (data_field self) = Some (JList records)
        \<longrightarrow> parse_response self (JDict d) = Inr records)"
  by (simp add: parse_response_def)

theorem parse_response_data_field_witness:
  "map_of [(''next_page_uri'', JNull)] (data_field (attrs Calls)) = None
   \<and> parse_response (attrs Calls) (JDict [(''next_page_uri'', JNull)]) = Inr []
   \<and> map_of [(''calls'', JList [JDict [(''sid'', JStr ''CA1'')], JDict [(''sid'', JStr ''CA2'')]])]
         (data_field (attrs Calls))
       = Some (JList [JDict [(''sid'', JStr ''CA1'')], JDict [(''sid'', JStr ''CA2'')]])
   \<and> parse_response (attrs Calls)
         (JDict [(''calls'', JList [JDict [(''sid'', JStr ''CA1'')], JDict [(''sid'', JStr ''CA2'')]])])
       = Inr [JDict [(''sid'', JStr ''CA1'')], JDict [(''sid'', JStr ''CA2'')]]"
  using parse_response_data_field [of "[(''next_page_uri'', JNull)]" "attrs Calls"]
    parse_response_data_field
      [of "[(''calls'', JList [JDict [(''sid'', JStr ''CA1'')], JDict [(''sid'', JStr ''CA2'')]])]"
          "attrs Calls" "[JDict [(''sid'', JStr ''CA1'')], JDict [(''sid'', JStr ''CA2'')]]"]
  by (simp add: stream_class_defs)

section \<open>The request parameters of an incremental stream\<close>

text \<open>
  C7. \<open>IncrementalTwilioStream.request_params\<close> starts from the string the state holds
  under the cursor field when it holds one that is not empty, and otherwise from the
  start date the instance was given. That start is read by \<^verbatim>\<open>pendulum.parse\<close> (strict)
  and formatted by the time template of the stream, and the parameters are those of
  \<open>TwilioStream.request_params\<close> with the filter field of the stream set to the
  result: the watermark of the state wins over the start date. When there is neither,
  no parameter is added.
\<close>

theorem incremental_request_params_start:
  "(stream_state (cursor_field self) = Some (JStr cursor_text) \<and> cursor_text \<noteq> []
      \<and> pendulum_parse lib True cursor_text = Inr t
      \<and> strftime lib t (time_filter_template self) = Inr formatted
    \<longrightarrow> IncrementalTwilioStream_request_params lib self start stream_state page_token
        = Inr ((TwilioStream_request_params stream_state page_token)
                 (incremental_filter_field self \<mapsto> JStr formatted)))
   \<and> (get_truthy stream_state (cursor_field self) = None \<and> start = Some d \<and> d \<noteq> []
      \<and> pendulum_parse lib True d = Inr t'
      \<and> strftime lib t' (time_filter_template self) = Inr formatted'
    \<longrightarrow> IncrementalTwilioStream_request_params lib self start stream_state page_token
        = Inr ((TwilioStream_request_params stream_state page_token)
                 (incremental_filter_field self \<mapsto> JStr formatted')))
   \<and> (get_truthy stream_state (cursor_field self) = None \<and> (start = None \<or> start = Some [])
    \<longrightarrow> IncrementalTwilioStream_request_params lib self start stream_state page_token
        = Inr (TwilioStream_request_params stream_state page_token))"
  by (auto simp: IncrementalTwilioStream_request_params_def effective_start_def get_truthy_def
        parse_strftime_def)

theorem incremental_request_params_start_witness:
  "pendulum_parse ref_lib True ''2021-01-01T00:00:00Z'' = Inr (CivilTime 2021 1 1 0 0 0)
   \<and> strftime ref_lib (CivilTime 2021 1 1 0 0 0) (time_filter_template (attrs Calls))
       = Inr ''2021-01-01T00:00:00Z''
   \<and> IncrementalTwilioStream_request_params ref_lib (attrs Calls) (Some ''2021-01-01T00:00:00Z'')
        Map.empty None
       = Inr [''PageSize'' \<mapsto> JInt 100, ''EndTime>'' \<mapsto> JStr ''2021-01-01T00:00:00Z'']
   \<and> pendulum_parse ref_lib True ''2021-06-01'' = Inr (CivilTime 2021 6 1 0 0 0)
   \<and> strftime ref_lib (CivilTime 2021 6 1 0 0 0) (time_filter_template (attrs Calls))
       = Inr ''2021-06-01T00:00:00Z''
   \<and> IncrementalTwilioStream_request_params ref_lib (attrs Calls) (Some ''2021-01-01T00:00:00Z'')
        [''end_time'' \<mapsto> JStr ''2021-06-01''] None
       = Inr [''PageSize'' \<mapsto> JInt 100, ''EndTime>'' \<mapsto> JStr ''2021-06-01T00:00:00Z'']
   \<and> strftime ref_lib (CivilTime 2021 1 1 0 0 0) (time_filter_template (attrs UsageRecords))
       = Inr ''2021-01-01''
   \<and> IncrementalTwilioStream_request_params ref_lib (attrs UsageRecords) (Some ''2021-01-01T00:00:00Z'')
        Map.empty None
       = Inr [''PageSize'' \<mapsto> JInt 100, ''EndDate'' \<mapsto> JStr ''2021-01-01'']
   \<and> IncrementalTwilioStream_request_params ref_lib (attrs Calls) None Map.empty None
       = Inr [''PageSize'' \<mapsto> JInt 100]"
proof -
  have f: "cursor_field (attrs Calls) = ''end_time''"
    "time_filter_template (attrs Calls) = ''%Y-%m-%dT%H:%M:%SZ''"
    "incremental_filter_field (attrs Calls) = ''EndTime>''"
    "cursor_field (attrs UsageRecords) = ''end_date''"
    "time_filter_template (attrs UsageRecords) = ''%Y-%m-%d''"
    "incremental_filter_field (attrs UsageRecords) = ''EndDate''"
    by (simp_all add: stream_class_defs)
  have p: "TwilioStream_request_params st None = [''PageSize'' \<mapsto> JInt 100]" for st
    by (simp add: TwilioStream_request_params_def HttpStream_request_params_def page_size_def)
  have a1: "pendulum_parse ref_lib True ''2021-01-01T00:00:00Z'' = Inr (CivilTime 2021 1 1 0 0 0)"
    by (simp add: ref_time_defs)
  have a2: "strftime ref_lib (CivilTime 2021 1 1 0 0 0) (time_filter_template (attrs Calls))
       = Inr ''2021-01-01T00:00:00Z''"
    by (simp add: f ref_time_defs)
  have b1: "pendulum_parse ref_lib True ''2021-06-01'' = Inr (CivilTime 2021 6 1 0 0 0)"
    by (simp add: ref_time_defs)
  have b2: "strftime ref_lib (CivilTime 2021 6 1 0 0 0) (time_filter_template (attrs Calls))
       = Inr ''2021-06-01T00:00:00Z''"
    by (simp add: f ref_time_defs)
  have c2: "strftime ref_lib (CivilTime 2021 1 1 0 0 0) (time_filter_template (attrs UsageRecords))
       = Inr ''2021-01-01''"
    by (simp add: f ref_time_defs)
  have none: "get_truthy Map.empty k = None" for k
    by (simp add: get_truthy_def)
  have r1: "IncrementalTwilioStream_request_params ref_lib (attrs Calls) (Some ''2021-01-01T00:00:00Z'')
        Map.empty None
       = Inr [''PageSize'' \<mapsto> JInt 100, ''EndTime>'' \<mapsto> JStr ''2021-01-01T00:00:00Z'']"
    using incremental_request_params_start
            [where stream_state = Map.empty and self = "attrs Calls" and lib = ref_lib
               and start = "Some ''2021-01-01T00:00:00Z''" and d = "''2021-01-01T00:00:00Z''"
               and t' = "CivilTime 2021 1 1 0 0 0" and formatted' = "''2021-01-01T00:00:00Z''"
               and page_token = None,
             THEN conjunct2, THEN conjunct1]
      a1 a2
    by (simp add: none p f)
  have r2: "IncrementalTwilioStream_request_params ref_lib (attrs Calls) (Some ''2021-01-01T00:00:00Z'')
        [''end_time'' \<mapsto> JStr ''2021-06-01''] None
       = Inr [''PageSize'' \<mapsto> JInt 100, ''EndTime>'' \<mapsto> JStr ''2021-06-01T00:00:00Z'']"
    using incremental_request_params_start
            [where stream_state = "[''end_time'' \<mapsto> JStr ''2021-06-01'']" and self = "attrs Calls"
               and lib = ref_lib and cursor_text = "''2021-06-01''"
               and t = "CivilTime 2021 6 1 0 0 0" and formatted = "''2021-06-01T00:00:00Z''"
               and start = "Some ''2021-01-01T00:00:00Z''" and page_token = None,
             THEN conjunct1]
      b1 b2
    by (simp add: p f)
  have r3: "IncrementalTwilioStream_request_params ref_lib (attrs UsageRecords) (Some ''2021-01-01T00:00:00Z'')
        Map.empty None
       = Inr [''PageSize'' \<mapsto> JInt 100, ''EndDate'' \<mapsto> JStr ''2021-01-01'']"
    using incremental_request_params_start
            [where stream_state = Map.empty and self = "attrs UsageRecords" and lib = ref_lib
               and start = "Some ''2021-01-01T00:00:00Z''" and d = "''2021-01-01T00:00:00Z''"
               and t' = "CivilTime 2021 1 1 0 0 0" and formatted' = "''2021-01-01''"
               and page_token = None,
             THEN conjunct2, THEN conjunct1]
      a1 c2
    by (simp add: none p f)
  have r4: "IncrementalTwilioStream_request_params ref_lib (attrs Calls) None Map.empty None
       = Inr [''PageSize'' \<mapsto> JInt 100]"
    using incremental_request_params_start
            [where stream_state = Map.empty and self = "attrs Calls" and lib = ref_lib
               and start = None and page_token = None,
             THEN conjunct2, THEN conjunct2]
    by (simp add: none p)
  show ?thesis
    by (intro conjI a1 a2 b1 b2 c2 r1 r2 r3 r4)
qed

section \<open>The continuation token\<close>

lemma split_on_not_Nil: "split_on sep s \<noteq> []"
  by (induction s) (auto split: list.splits)

lemma split_on_absent: "sep \<notin> set a \<Longrightarrow> split_on sep a = [a]"
  by (induction a) auto

lemma split_on_append: "sep \<notin> set a \<Longrightarrow> split_on sep (a @ sep # rest) = a # split_on sep rest"
  by (induction a) auto

lemma split_on_chars: "w \<in> set (split_on sep s) \<Longrightarrow> set w \<subseteq> set s"
proof (induction s arbitrary: w)
  case Nil
  then show ?case by simp
next
  case (Cons c cs)
  show ?case
  proof (cases "c = sep")
    case True
    with Cons.prems have "w = [] \<or> w \<in> set (split_on sep cs)" by simp
    with Cons.IH show ?thesis by auto
  next
    case False
    obtain w0 ws where s: "split_on sep cs = w0 # ws"
      using split_on_not_Nil [of sep cs] by (cases "split_on sep cs") auto
    with False Cons.prems have "w = c # w0 \<or> w \<in> set ws" by simp
    moreover have "set w0 \<subseteq> set cs" using Cons.IH [of w0] s by simp
    moreover have "w \<in> set ws \<Longrightarrow> set w \<subseteq> set cs" using Cons.IH [of w] s by simp
    ultimately show ?thesis by auto
  qed
qed

lemma split_first_append: "sep \<notin> set a \<Longrightarrow> split_first sep (a @ sep # rest) = (a, rest)"
  by (simp add: split_first_def takeWhile_append dropWhile_append)

lemma split_first_absent:
  assumes "sep \<notin> set a" shows "split_first sep a = (a, [])"
proof -
  have "takeWhile (\<lambda>c. c \<noteq> sep) a = a" "dropWhile (\<lambda>c. c \<noteq> sep) a = []"
    using assms by (auto simp: takeWhile_eq_all_conv)
  then show ?thesis unfolding split_first_def by (simp only: drop_Nil)
qed

lemma urlparse_query_relative:
  assumes "relative_path p" and "list_all url_char q"
  shows "urlparse_query lib (p @ CHR ''?'' # q) = Inr q"
proof -
  let ?url = "p @ CHR ''?'' # q"
  from assms(1) obtain p' where p: "p = CHR ''/'' # p'"
    by (cases p) (auto simp: relative_path_def)
  have p_chars: "list_all (\<lambda>c. url_char c \<and> c \<noteq> CHR ''?'') p"
    using assms(1) by (simp add: relative_path_def)
  have all: "list_all url_char ?url"
    using p_chars assms(2) by (auto simp: list_all_iff url_char_def)
  have 1: "lstrip_c0_space ?url = ?url"
    by (simp add: lstrip_c0_space_def p)
  have 2: "remove_unsafe ?url = ?url"
    unfolding remove_unsafe_def using all
    by (intro filter_True) (auto simp: list_all_iff url_char_def)
  have 3: "strip_scheme ?url = ?url"
    by (simp add: strip_scheme_def p ascii_alpha_def Let_def)
  have 4: "take 2 ?url \<noteq> ''//''"
    using assms(1) by (cases p') (auto simp: relative_path_def p)
  have no_hash: "CHR ''#'' \<notin> set ?url"
    using all by (auto simp: list_all_iff url_char_def)
  have no_q: "CHR ''?'' \<notin> set p"
    using p_chars by (auto simp: list_all_iff)
  have 5: "fst (split_first (CHR ''#'') ?url) = ?url"
    by (simp only: split_first_absent [OF no_hash] fst_conv)
  have 6: "snd (split_first (CHR ''?'') ?url) = q"
    by (simp only: split_first_append [OF no_q] snd_conv)
  show ?thesis
    unfolding urlparse_query_def by (simp only: 1 2 3 4 5 6 Let_def if_False simp_thms)
qed

lemma parse_qsl_no_equals:
  assumes "CHR ''='' \<notin> set q" shows "parse_qsl lib q = []"
proof -
  have "parse_qsl_field lib f = []" if "f \<in> set (split_on (CHR ''&'') q)" for f
  proof -
    from that have "set f \<subseteq> set q" by (rule split_on_chars)
    with assms have "CHR ''='' \<notin> set f" by auto
    then show ?thesis by (simp add: parse_qsl_field_def)
  qed
  then show ?thesis by (simp add: parse_qsl_def)
qed

lemma dict_of_pairs_fold:
  "dict_update_pairs m kvs
   = m ++ map_of (rev (map (\<lambda>kv. (fst kv, JStr (snd kv))) kvs))"
proof (induction kvs arbitrary: m)
  case Nil
  show ?case by simp
next
  case (Cons kv kvs)
  have "dict_update_pairs m (kv # kvs) = dict_update_pairs (m(fst kv \<mapsto> JStr (snd kv))) kvs"
    by simp
  also have "\<dots> = m(fst kv \<mapsto> JStr (snd kv)) ++ map_of (rev (map (\<lambda>kv. (fst kv, JStr (snd kv))) kvs))"
    by (rule Cons.IH)
  also have "\<dots> = m ++ map_of (rev (map (\<lambda>kv. (fst kv, JStr (snd kv))) (kv # kvs)))"
    by (rule ext) (simp add: map_add_def split: option.splits)
  finally show ?case .
qed

lemma next_page_token_relative:
  assumes "relative_path p" and "list_all url_char q"
    and "map_of d ''next_page_uri'' = Some (JStr (p @ CHR ''?'' # q))"
  shows "next_page_token lib (JDict d) = Inr (Some (dict_of_pairs (parse_qsl lib q)))"
  using assms(3) urlparse_query_relative [OF assms(1,2), of lib]
  by (simp add: next_page_token_def get_truthy_def)

lemma TwilioStream_request_params_token:
  assumes "tok \<noteq> Map.empty"
  shows "TwilioStream_request_params stream_state (Some tok) = [''PageSize'' \<mapsto> JInt 100] ++ tok"
  using assms
  by (simp add: TwilioStream_request_params_def HttpStream_request_params_def page_size_def)

lemma split_on_join_fields:
  assumes "pieces \<noteq> []" and "list_all (\<lambda>f. CHR ''&'' \<notin> set f) pieces"
  shows "split_on (CHR ''&'') (join_fields pieces) = pieces"
  using assms
proof (induction pieces rule: join_fields.induct)
  case 1
  then show ?case by simp
next
  case (2 f)
  then show ?case by (simp add: split_on_absent)
next
  case (3 f g fs)
  then have "CHR ''&'' \<notin> set f" and "split_on (CHR ''&'') (join_fields (g # fs)) = g # fs"
    by simp_all
  then show ?case by (simp add: split_on_append del: join_fields.simps(2))
qed

lemma join_fields_chars:
  "list_all (list_all P) pieces \<Longrightarrow> P (CHR ''&'') \<Longrightarrow> list_all P (join_fields pieces)"
  by (induction pieces rule: join_fields.induct) simp_all

lemma plus_to_space_percent: "CHR ''%'' \<in> set (plus_to_space s) \<longleftrightarrow> CHR ''%'' \<in> set s"
  by (auto simp: plus_to_space_def)

lemma parse_qsl_field_explicit:
  "parse_qsl_field lib f =
     (let space = (\<lambda>s. map (\<lambda>c. if c = CHR ''+'' then CHR '' '' else c) s);
          decode = (\<lambda>s. if CHR ''%'' \<in> set s then unquote_escapes lib (space s) else space s);
          nm = takeWhile (\<lambda>c. c \<noteq> CHR ''='') f;
          val = drop 1 (dropWhile (\<lambda>c. c \<noteq> CHR ''='') f)
      in if CHR ''='' \<in> set f \<and> val \<noteq> [] then [(decode nm, decode val)] else [])"
  by (auto simp: parse_qsl_field_def split_first_def unquote_def plus_to_space_percent Let_def
           plus_to_space_def)

lemma concat_map_filter:
  "concat (map (\<lambda>x. if P x then [g x] else []) xs) = List.map_filter (\<lambda>x. if P x then Some (g x) else None) xs"
  by (induction xs) (simp_all add: List.map_filter_simps)

lemma dict_of_pairs_map_of:
  "dict_of_pairs pairs = map_of (rev (map (\<lambda>kv. (fst kv, JStr (snd kv))) pairs))"
  by (simp add: dict_of_pairs_def dict_of_pairs_fold)

lemma parse_qsl_join_fields:
  assumes "pieces \<noteq> []" and "list_all (\<lambda>f. CHR ''&'' \<notin> set f) pieces"
  shows "parse_qsl lib (join_fields pieces) = concat (map (parse_qsl_field lib) pieces)"
  by (simp only: parse_qsl_def split_on_join_fields [OF assms])

lemma pairs_of_pieces:
  "map (\<lambda>kv. (fst kv, JStr (snd kv))) (concat (map (parse_qsl_field lib) pieces))
   = List.map_filter
       (\<lambda>f. if CHR ''='' \<in> set f \<and> drop 1 (dropWhile (\<lambda>c. c \<noteq> CHR ''='') f) \<noteq> []
            then Some
              ((if CHR ''%'' \<in> set (takeWhile (\<lambda>c. c \<noteq> CHR ''='') f)
                then unquote_escapes lib
                       (map (\<lambda>c. if c = CHR ''+'' then CHR '' '' else c) (takeWhile (\<lambda>c. c \<noteq> CHR ''='') f))
                else map (\<lambda>c. if c = CHR ''+'' then CHR '' '' else c) (takeWhile (\<lambda>c. c \<noteq> CHR ''='') f)),
               JStr
                (if CHR ''%'' \<in> set (drop 1 (dropWhile (\<lambda>c. c \<noteq> CHR ''='') f))
                 then unquote_escapes lib
                        (map (\<lambda>c. if c = CHR ''+'' then CHR '' '' else c)
                           (drop 1 (dropWhile (\<lambda>c. c \<noteq> CHR ''='') f)))
                 else map (\<lambda>c. if c = CHR ''+'' then CHR '' '' else c)
                        (drop 1 (dropWhile (\<lambda>c. c \<noteq> CHR ''='') f))))
            else None)
       pieces"
  by (induction pieces) (simp_all add: List.map_filter_simps parse_qsl_field_explicit Let_def)

text \<open>
  Every query string is the joining of fields that hold no \<^verbatim>\<open>&\<close>: of those
  \<^verbatim>\<open>q.split('&')\<close> cuts it into.
\<close>

lemma join_fields_Cons: "ws \<noteq> [] \<Longrightarrow> join_fields (w # ws) = w @ CHR ''&'' # join_fields ws"
  by (cases ws) simp_all

lemma join_fields_split_on: "join_fields (split_on (CHR ''&'') q) = q"
proof (induction q)
  case Nil
  show ?case by simp
next
  case (Cons c cs)
  obtain w ws where s: "split_on (CHR ''&'') cs = w # ws"
    using split_on_not_Nil [of "CHR ''&''" cs] by (cases "split_on (CHR ''&'') cs") auto
  show ?case
  proof (cases "c = CHR ''&''")
    case True
    then show ?thesis using Cons.IH split_on_not_Nil [of "CHR ''&''" cs]
      by (simp add: join_fields_Cons)
  next
    case False
    have "join_fields ((c # w) # ws) = c # join_fields (w # ws)"
      by (cases ws) simp_all
    with False s Cons.IH show ?thesis by simp
  qed
qed

lemma split_on_no_sep: "w \<in> set (split_on sep s) \<Longrightarrow> sep \<notin> set w"
proof (induction s arbitrary: w)
  case Nil
  then show ?case by simp
next
  case (Cons c cs)
  obtain w0 ws where s: "split_on sep cs = w0 # ws"
    using split_on_not_Nil [of sep cs] by (cases "split_on sep cs") auto
  have "sep \<notin> set w0" using Cons.IH [of w0] s by simp
  with Cons s show ?case by (auto split: if_splits)
qed

lemma query_is_joined_fields:
  assumes "list_all url_char q"
  shows "\<exists>pieces. pieces \<noteq> []
           \<and> list_all (list_all (\<lambda>c. url_char c \<and> c \<noteq> CHR ''&'')) pieces
           \<and> q = join_fields pieces"
proof (intro exI conjI)
  show "split_on (CHR ''&'') q \<noteq> []" by (rule split_on_not_Nil)
  show "list_all (list_all (\<lambda>c. url_char c \<and> c \<noteq> CHR ''&'')) (split_on (CHR ''&'') q)"
    unfolding list_all_iff
  proof (intro ballI conjI)
    fix w c assume w: "w \<in> set (split_on (CHR ''&'') q)" and c: "c \<in> set w"
    from w have "set w \<subseteq> set q" by (rule split_on_chars)
    with c assms show "url_char c" by (auto simp: list_all_iff)
    from w have "CHR ''&'' \<notin> set w" by (rule split_on_no_sep)
    with c show "c \<noteq> CHR ''&''" by auto
  qed
  show "q = join_fields (split_on (CHR ''&'') q)" by (simp only: join_fields_split_on)
qed

lemma ref_unquote_example: "ref_unquote ''EndTime%3E'' = ''EndTime>''"
  by code_simp

text \<open>
  C1. Let \<^verbatim>\<open>next_page_uri\<close> be a relative URL whose query string is the fields
  \<open>pieces\<close> joined by \<^verbatim>\<open>&\<close>, which every query string is
  (\<open>query_is_joined_fields\<close>). \<open>next_page_token\<close> returns
  the dictionary of the fields \<^verbatim>\<open>name=value\<close> with a value that is not empty, cut at
  their first \<^verbatim>\<open>=\<close>; in a name and in a value every \<^verbatim>\<open>+\<close> is a space and the percent
  escapes are decoded; a later field replaces an earlier one of the same name; a field
  with no \<^verbatim>\<open>=\<close> or no value is left out. So \<^verbatim>\<open>PageToken=abc&Page=2\<close> gives
  \<^verbatim>\<open>{PageToken: abc, Page: 2}\<close>. For a page token that is not empty,
  \<open>TwilioStream.request_params\<close> returns the page size \<^verbatim>\<open>PageSize = 100\<close> updated
  with the token: its keys are \<^verbatim>\<open>PageSize\<close> and those of the token, and every pair of
  the token is in it as it is.
\<close>

theorem next_page_token_request_params_roundtrip:
  assumes "relative_path p" and "pieces \<noteq> []"
    and "list_all (list_all (\<lambda>c. url_char c \<and> c \<noteq> CHR ''&'')) pieces"
    and "map_of d ''next_page_uri'' = Some (JStr (p @ CHR ''?'' # join_fields pieces))"
    and "tok \<noteq> Map.empty"
  shows "next_page_token lib (JDict d)
      = (let space = (\<lambda>s. map (\<lambda>c. if c = CHR ''+'' then CHR '' '' else c) s);
             decode = (\<lambda>s. if CHR ''%'' \<in> set s then unquote_escapes lib (space s) else space s);
             pair = (\<lambda>f. let nm = takeWhile (\<lambda>c. c \<noteq> CHR ''='') f;
                              val = drop 1 (dropWhile (\<lambda>c. c \<noteq> CHR ''='') f)
                          in if CHR ''='' \<in> set f \<and> val \<noteq> []
                             then Some (decode nm, JStr (decode val)) else None)
         in Inr (Some (map_of (rev (List.map_filter pair pieces)))))
    \<and> TwilioStream_request_params stream_state (Some tok) = [''PageSize'' \<mapsto> JInt 100] ++ tok
    \<and> dom (TwilioStream_request_params stream_state (Some tok)) = insert ''PageSize'' (dom tok)
    \<and> (\<forall>k v. tok k = Some v \<longrightarrow> TwilioStream_request_params stream_state (Some tok) k = Some v)"
proof (intro conjI)
  have chars: "list_all url_char (join_fields pieces)"
  proof (rule join_fields_chars)
    show "list_all (list_all url_char) pieces"
      using assms(3) by (auto simp: list_all_iff)
    show "url_char (CHR ''&'')" by (simp add: url_char_def)
  qed
  have amp: "list_all (\<lambda>f. CHR ''&'' \<notin> set f) pieces"
    using assms(3) by (auto simp: list_all_iff)
  have "next_page_token lib (JDict d)
        = Inr (Some (dict_of_pairs (parse_qsl lib (join_fields pieces))))"
    using assms(1) chars assms(4) by (rule next_page_token_relative)
  also have "dict_of_pairs (parse_qsl lib (join_fields pieces))
        = map_of (rev (map (\<lambda>kv. (fst kv, JStr (snd kv)))
                    (concat (map (parse_qsl_field lib) pieces))))"
    by (simp only: parse_qsl_join_fields [OF assms(2) amp] dict_of_pairs_map_of)
  finally show "next_page_token lib (JDict d)
      = (let space = (\<lambda>s. map (\<lambda>c. if c = CHR ''+'' then CHR '' '' else c) s);
             decode = (\<lambda>s. if CHR ''%'' \<in> set s then unquote_escapes lib (space s) else space s);
             pair = (\<lambda>f. let nm = takeWhile (\<lambda>c. c \<noteq> CHR ''='') f;
                              val = drop 1 (dropWhile (\<lambda>c. c \<noteq> CHR ''='') f)
                          in if CHR ''='' \<in> set f \<and> val \<noteq> []
                             then Some (decode nm, JStr (decode val)) else None)
         in Inr (Some (map_of (rev (List.map_filter pair pieces)))))"
    by (simp only: pairs_of_pieces Let_def)
  have params: "TwilioStream_request_params stream_state (Some tok) = [''PageSize'' \<mapsto> JInt 100] ++ tok"
    using assms(5) by (rule TwilioStream_request_params_token)
  show "TwilioStream_request_params stream_state (Some tok) = [''PageSize'' \<mapsto> JInt 100] ++ tok"
    by (rule params)
  show "dom (TwilioStream_request_params stream_state (Some tok)) = insert ''PageSize'' (dom tok)"
    unfolding params by auto
  show "\<forall>k v. tok k = Some v \<longrightarrow> TwilioStream_request_params stream_state (Some tok) k = Some v"
    unfolding params by (simp add: map_add_def)
qed

theorem next_page_token_request_params_roundtrip_witness:
  "relative_path ''/2010-04-01/Accounts/AC1/Calls.json''
   \<and> join_fields [''PageToken=abc'', ''Page=2''] = ''PageToken=abc&Page=2''
   \<and> next_page_token ref_lib
        (JDict [(''calls'', JList []),
                (''next_page_uri'', JStr ''/2010-04-01/Accounts/AC1/Calls.json?PageToken=abc&Page=2'')])
       = Inr (Some [''PageToken'' \<mapsto> JStr ''abc'', ''Page'' \<mapsto> JStr ''2''])
   \<and> join_fields [''EndTime%3E=2021-01-01'', ''Blank='', ''Flag'', ''Page=1+2'', ''Page=3'']
       = ''EndTime%3E=2021-01-01&Blank=&Flag&Page=1+2&Page=3''
   \<and> next_page_token ref_lib
        (JDict [(''next_page_uri'',
                 JStr ''/2010-04-01/Accounts/AC1/Calls.json?EndTime%3E=2021-01-01&Blank=&Flag&Page=1+2&Page=3'')])
       = Inr (Some [''EndTime>'' \<mapsto> JStr ''2021-01-01'', ''Page'' \<mapsto> JStr ''3''])
   \<and> TwilioStream_request_params Map.empty (Some [''PageToken'' \<mapsto> JStr ''abc'', ''Page'' \<mapsto> JStr ''2''])
       = [''PageSize'' \<mapsto> JInt 100, ''PageToken'' \<mapsto> JStr ''abc'', ''Page'' \<mapsto> JStr ''2'']"
proof -
  have a: "relative_path ''/2010-04-01/Accounts/AC1/Calls.json''"
    by (simp add: relative_path_def url_char_def)
  have b1: "[''PageToken=abc'', ''Page=2''] \<noteq> []"
    and b2: "[''EndTime%3E=2021-01-01'', ''Blank='', ''Flag'', ''Page=1+2'', ''Page=3''] \<noteq> []"
    by simp_all
  have c1: "list_all (list_all (\<lambda>c. url_char c \<and> c \<noteq> CHR ''&'')) [''PageToken=abc'', ''Page=2'']"
    by (simp add: url_char_def)
  have c2: "list_all (list_all (\<lambda>c. url_char c \<and> c \<noteq> CHR ''&''))
              [''EndTime%3E=2021-01-01'', ''Blank='', ''Flag'', ''Page=1+2'', ''Page=3'']"
    by (simp add: url_char_def)
  have j1: "join_fields [''PageToken=abc'', ''Page=2''] = ''PageToken=abc&Page=2''"
    by simp
  have j2: "join_fields [''EndTime%3E=2021-01-01'', ''Blank='', ''Flag'', ''Page=1+2'', ''Page=3'']
       = ''EndTime%3E=2021-01-01&Blank=&Flag&Page=1+2&Page=3''"
    by simp
  have d1: "map_of [(''calls'', JList []),
                (''next_page_uri'', JStr ''/2010-04-01/Accounts/AC1/Calls.json?PageToken=abc&Page=2'')]
             ''next_page_uri''
           = Some (JStr (''/2010-04-01/Accounts/AC1/Calls.json'' @ CHR ''?'' #
                         join_fields [''PageToken=abc'', ''Page=2'']))"
    by simp
  have d2: "map_of [(''next_page_uri'',
                 JStr ''/2010-04-01/Accounts/AC1/Calls.json?EndTime%3E=2021-01-01&Blank=&Flag&Page=1+2&Page=3'')]
             ''next_page_uri''
           = Some (JStr (''/2010-04-01/Accounts/AC1/Calls.json'' @ CHR ''?'' #
                         join_fields [''EndTime%3E=2021-01-01'', ''Blank='', ''Flag'', ''Page=1+2'', ''Page=3'']))"
    by simp
  have e: "[''PageToken'' \<mapsto> JStr ''abc'', ''Page'' \<mapsto> JStr ''2''] \<noteq> Map.empty"
    by simp
  have u: "unquote_escapes ref_lib ''EndTime%3E'' = ''EndTime>''"
    by (simp add: ref_lib_def ref_unquote_example del: ref_unquote.simps)
  have m: "[''PageSize'' \<mapsto> JInt 100] ++ [''PageToken'' \<mapsto> JStr ''abc'', ''Page'' \<mapsto> JStr ''2'']
           = [''PageSize'' \<mapsto> JInt 100, ''PageToken'' \<mapsto> JStr ''abc'', ''Page'' \<mapsto> JStr ''2'']"
    by simp
  have r1: "next_page_token ref_lib
        (JDict [(''calls'', JList []),
                (''next_page_uri'', JStr ''/2010-04-01/Accounts/AC1/Calls.json?PageToken=abc&Page=2'')])
       = Inr (Some [''PageToken'' \<mapsto> JStr ''abc'', ''Page'' \<mapsto> JStr ''2''])"
    using next_page_token_request_params_roundtrip [OF a b1 c1 d1 e, of ref_lib Map.empty, THEN conjunct1]
    by (simp add: List.map_filter_simps)
  have r2: "next_page_token ref_lib
        (JDict [(''next_page_uri'',
                 JStr ''/2010-04-01/Accounts/AC1/Calls.json?EndTime%3E=2021-01-01&Blank=&Flag&Page=1+2&Page=3'')])
       = Inr (Some [''EndTime>'' \<mapsto> JStr ''2021-01-01'', ''Page'' \<mapsto> JStr ''3''])"
    using next_page_token_request_params_roundtrip [OF a b2 c2 d2 e, of ref_lib Map.empty, THEN conjunct1]
    by (simp add: List.map_filter_simps u)
  have r3: "TwilioStream_request_params Map.empty (Some [''PageToken'' \<mapsto> JStr ''abc'', ''Page'' \<mapsto> JStr ''2''])
       = [''PageSize'' \<mapsto> JInt 100, ''PageToken'' \<mapsto> JStr ''abc'', ''Page'' \<mapsto> JStr ''2'']"
    using next_page_token_request_params_roundtrip
            [OF a b1 c1 d1 e, of ref_lib Map.empty, THEN conjunct2, THEN conjunct1]
    by (simp only: m)
  show ?thesis
    by (intro conjI a j1 j2 r1 r2 r3)
qed

text \<open>
  C3, as the code has it. A query string that strict parsing would refuse raises
  nothing in \<open>next_page_token\<close>: for a relative URL with any query string \<open>q\<close> the
  result is the dictionary of the pairs \<open>parse_qsl\<close> keeps, and \<open>parse_qsl\<close> passes
  over every field that has no \<^verbatim>\<open>=\<close> or no value. A query string with no \<^verbatim>\<open>=\<close> at
  all gives the empty dictionary, which the pagination loop takes for the end. The
  first theorem is the example: the continuation URL
  \<^verbatim>\<open>/2010-04-01/Accounts/AC1/Calls.json?PageToken\<close> gives the empty dictionary and no
  error.
\<close>

theorem next_page_token_malformed_query_counterexample:
  "next_page_token ref_lib
     (JDict [(''calls'', JList []),
             (''next_page_uri'', JStr ''/2010-04-01/Accounts/AC1/Calls.json?PageToken'')])
   = Inr (Some Map.empty)"
  by (simp add: next_page_token_def get_truthy_def urlparse_query_def strip_scheme_def
        remove_unsafe_def lstrip_c0_space_def split_first_def parse_qsl_def parse_qsl_field_def
        dict_of_pairs_def)

text \<open>
  C3, amended: for a relative URL with any query string, \<open>next_page_token\<close> returns the
  dictionary of the well-formed fields and never an error; with no well-formed field
  the dictionary is empty.
\<close>

theorem next_page_token_lenient:
  assumes "relative_path p" and "list_all url_char q"
    and "map_of d ''next_page_uri'' = Some (JStr (p @ CHR ''?'' # q))"
  shows "next_page_token lib (JDict d) = Inr (Some (dict_of_pairs (parse_qsl lib q)))
     \<and> (CHR ''='' \<notin> set q \<longrightarrow> next_page_token lib (JDict d) = Inr (Some Map.empty))"
  using next_page_token_relative [OF assms, of lib]
  by (simp add: parse_qsl_no_equals dict_of_pairs_def)

theorem next_page_token_lenient_witness:
  "relative_path ''/2010-04-01/Accounts/AC1/Calls.json''
   \<and> list_all url_char ''Page=2&PageToken&&Size=''
   \<and> parse_qsl ref_lib ''Page=2&PageToken&&Size='' = [(''Page'', ''2'')]
   \<and> next_page_token ref_lib
        (JDict [(''next_page_uri'', JStr ''/2010-04-01/Accounts/AC1/Calls.json?Page=2&PageToken&&Size='')])
       = Inr (Some [''Page'' \<mapsto> JStr ''2''])
   \<and> list_all url_char ''PageToken''
   \<and> CHR ''='' \<notin> set ''PageToken''
   \<and> next_page_token ref_lib
        (JDict [(''next_page_uri'', JStr ''/2010-04-01/Accounts/AC1/Calls.json?PageToken'')])
       = Inr (Some Map.empty)"
proof -
  have a: "relative_path ''/2010-04-01/Accounts/AC1/Calls.json''"
    by (simp add: relative_path_def url_char_def)
  have b: "list_all url_char ''Page=2&PageToken&&Size=''" "list_all url_char ''PageToken''"
    by (simp_all add: url_char_def)
  have c: "map_of [(''next_page_uri'', JStr ''/2010-04-01/Accounts/AC1/Calls.json?Page=2&PageToken&&Size='')]
             ''next_page_uri''
           = Some (JStr (''/2010-04-01/Accounts/AC1/Calls.json'' @ CHR ''?'' # ''Page=2&PageToken&&Size=''))"
    by simp
  have d: "map_of [(''next_page_uri'', JStr ''/2010-04-01/Accounts/AC1/Calls.json?PageToken'')]
             ''next_page_uri''
           = Some (JStr (''/2010-04-01/Accounts/AC1/Calls.json'' @ CHR ''?'' # ''PageToken''))"
    by simp
  have e: "parse_qsl ref_lib ''Page=2&PageToken&&Size='' = [(''Page'', ''2'')]"
    by (simp add: parse_qsl_def parse_qsl_field_def split_first_def unquote_def plus_to_space_def)
  have f: "CHR ''='' \<notin> set ''PageToken''"
    by simp
  have r1: "next_page_token ref_lib
        (JDict [(''next_page_uri'', JStr ''/2010-04-01/Accounts/AC1/Calls.json?Page=2&PageToken&&Size='')])
       = Inr (Some [''Page'' \<mapsto> JStr ''2''])"
    using next_page_token_lenient [OF a b(1) c, of ref_lib, THEN conjunct1]
    by (simp add: e dict_of_pairs_def)
  have r2: "next_page_token ref_lib
        (JDict [(''next_page_uri'', JStr ''/2010-04-01/Accounts/AC1/Calls.json?PageToken'')])
       = Inr (Some Map.empty)"
    using next_page_token_lenient [OF a b(2) d, of ref_lib, THEN conjunct2] f by simp
  show ?thesis
    by (intro conjI a b e f r1 r2)
qed

section \<open>The slices of a nested stream\<close>

lemma validated_iff: "validated vs item = list_all (field_passes item) vs"
  by (induction vs) (auto simp: field_passes_def split: option.splits)

text \<open>
  C6, as stated, fails on a record whose validation field is present, differs from the
  sentinel and counts as false: here \<^verbatim>\<open>num_media\<close> is the empty string, the media
  locator is present, and \<open>MessageMedia\<close> yields no slice.
\<close>

theorem nested_item_slices_present_field_counterexample:
  "map_of [(''media'', JStr ''/2010-04-01/Accounts/AC1/Messages/MM1/Media.json'')] ''media''
     = Some (JStr ''/2010-04-01/Accounts/AC1/Messages/MM1/Media.json'')
   \<and> map_of [(''sid'', JStr ''MM1''), (''num_media'', JStr ''''),
              (''subresource_uris'',
               JDict [(''media'', JStr ''/2010-04-01/Accounts/AC1/Messages/MM1/Media.json'')])]
         ''num_media'' = Some (JStr '''')
   \<and> JStr '''' \<noteq> JStr ''0''
   \<and> TwilioNestedStream_item_slices (attrs MessageMedia)
        (JDict [(''sid'', JStr ''MM1''), (''num_media'', JStr ''''),
                (''subresource_uris'',
                 JDict [(''media'', JStr ''/2010-04-01/Accounts/AC1/Messages/MM1/Media.json'')])])
       = Inr []"
  by (simp add: TwilioNestedStream_item_slices_def get_truthy_def stream_class_defs)

text \<open>
  C6, amended. For a parent record that is an object: without \<^verbatim>\<open>subresource_uris\<close>,
  or when that object has no value counting as true under the locator key, the record
  yields no slice; with such a locator, the record yields no slice when some validation
  rule does not hold (its field is absent, counts as false or equals the sentinel), and
  exactly the slice \<^verbatim>\<open>{subresource_uri: locator}\<close> when all hold.
\<close>

theorem nested_item_slices_truthy:
  "(map_of kvs ''subresource_uris'' = None
      \<longrightarrow> TwilioNestedStream_item_slices self (JDict kvs) = Inr [])
   \<and> (map_of kvs ''subresource_uris'' = Some (JDict uris)
        \<and> get_truthy (map_of uris) (subresource_uri_key self) = None
      \<longrightarrow> TwilioNestedStream_item_slices self (JDict kvs) = Inr [])
   \<and> (map_of kvs ''subresource_uris'' = Some (JDict uris)
        \<and> get_truthy (map_of uris) (subresource_uri_key self) = Some uri
        \<and> \<not> list_all (field_passes (map_of kvs)) (media_exist_validation self)
      \<longrightarrow> TwilioNestedStream_item_slices self (JDict kvs) = Inr [])
   \<and> (map_of kvs ''subresource_uris'' = Some (JDict uris)
        \<and> get_truthy (map_of uris) (subresource_uri_key self) = Some uri
        \<and> list_all (field_passes (map_of kvs)) (media_exist_validation self)
      \<longrightarrow> TwilioNestedStream_item_slices self (JDict kvs) = Inr [[''subresource_uri'' \<mapsto> uri]])"
  by (simp add: TwilioNestedStream_item_slices_def validated_iff)

theorem nested_item_slices_truthy_witness:
  "TwilioNestedStream_item_slices (attrs MessageMedia)
     (JDict [(''sid'', JStr ''MM1''), (''num_media'', JStr ''5'')]) = Inr []
   \<and> TwilioNestedStream_item_slices (attrs MessageMedia)
     (JDict [(''sid'', JStr ''MM1''), (''num_media'', JStr ''5''),
             (''subresource_uris'', JDict [(''feedback'', JStr ''/F.json'')])]) = Inr []
   \<and> TwilioNestedStream_item_slices (attrs MessageMedia)
     (JDict [(''sid'', JStr ''MM1''), (''num_media'', JStr ''0''),
             (''subresource_uris'', JDict [(''media'', JStr ''/M.json'')])]) = Inr []
   \<and> TwilioNestedStream_item_slices (attrs MessageMedia)
     (JDict [(''sid'', JStr ''MM1''), (''num_media'', JStr ''5''),
             (''subresource_uris'', JDict [(''media'', JStr ''/M.json'')])])
     = Inr [[''subresource_uri'' \<mapsto> JStr ''/M.json'']]"
  using
    nested_item_slices_truthy
      [of "[(''sid'', JStr ''MM1''), (''num_media'', JStr ''5'')]" "attrs MessageMedia"]
    nested_item_slices_truthy
      [of "[(''sid'', JStr ''MM1''), (''num_media'', JStr ''5''),
            (''subresource_uris'', JDict [(''feedback'', JStr ''/F.json'')])]"
          "attrs MessageMedia" "[(''feedback'', JStr ''/F.json'')]"]
    nested_item_slices_truthy
      [of "[(''sid'', JStr ''MM1''), (''num_media'', JStr ''0''),
            (''subresource_uris'', JDict [(''media'', JStr ''/M.json'')])]"
          "attrs MessageMedia" "[(''media'', JStr ''/M.json'')]" "JStr ''/M.json''"]
    nested_item_slices_truthy
      [of "[(''sid'', JStr ''MM1''), (''num_media'', JStr ''5''),
            (''subresource_uris'', JDict [(''media'', JStr ''/M.json'')])]"
          "attrs MessageMedia" "[(''media'', JStr ''/M.json'')]" "JStr ''/M.json''"]
  by (simp add: get_truthy_def field_passes_def stream_class_defs)



section \<open>Resolving the parent of a nested stream\<close>

lemma request_params_fresh:
  "request_params lib self None Map.empty page_token
   = Inr (TwilioStream_request_params Map.empty page_token)"
  by (simp add: request_params_def IncrementalTwilioStream_request_params_def
        effective_start_def get_truthy_def)

lemma data_field_incremental: "data_field (self\<lparr>incremental := b\<rparr>) = data_field self"
  by (simp add: data_field_def split: option.splits)

lemma subresource_uri_key_incremental:
  "subresource_uri_key (self\<lparr>incremental := b\<rparr>) = subresource_uri_key self"
  by (simp add: subresource_uri_key_def data_field_incremental split: option.splits)

lemma path_incremental: "path lib (self\<lparr>incremental := b\<rparr>) stream_slice = path lib self stream_slice"
  by (cases "kind self")
     (simp_all add: path_def TwilioStream_path_def Alerts_path_def UsageNestedStream_path_def
        split: sum.splits)

lemma parse_response_incremental: "parse_response (self\<lparr>incremental := b\<rparr>) doc = parse_response self doc"
  unfolding parse_response_def data_field_incremental by (rule refl)

lemma TwilioNestedStream_item_slices_incremental:
  "TwilioNestedStream_item_slices (self\<lparr>incremental := b\<rparr>) item
   = TwilioNestedStream_item_slices self item"
proof -
  have "media_exist_validation (self\<lparr>incremental := b\<rparr>) = media_exist_validation self"
    by simp
  then show ?thesis
    unfolding TwilioNestedStream_item_slices_def subresource_uri_key_incremental
    by (simp only:)
qed

lemma item_slices_incremental: "item_slices (self\<lparr>incremental := b\<rparr>) item = item_slices self item"
  by (cases "kind self")
     (simp_all add: item_slices_def TwilioNestedStream_item_slices_incremental)

lemma read_pages_incremental:
  "read_pages lib fetch (self\<lparr>incremental := b\<rparr>) None stream_slice Map.empty n page_token
   = read_pages lib fetch self None stream_slice Map.empty n page_token"
proof (induction n arbitrary: page_token)
  case 0
  show ?case by simp
next
  case (Suc n)
  show ?case
    by (simp add: path_incremental parse_response_incremental request_params_fresh Suc
          split: sum.splits json.splits option.splits prod.splits)
qed

lemma read_records_incremental:
  "read_records lib fetch fuel (self\<lparr>incremental := b\<rparr>) None stream_slice None
   = read_records lib fetch fuel self None stream_slice None"
  by (simp add: read_records_def read_pages_incremental)

lemma stream_slices_incremental:
  "stream_slices lib fetch fuel (Stream (self\<lparr>incremental := b\<rparr>) parent)
   = stream_slices lib fetch fuel (Stream self parent)"
proof -
  have k: "kind (self\<lparr>incremental := b\<rparr>) = kind self"
    by simp
  show ?thesis
    unfolding stream_slices.simps item_slices_incremental k by (rule refl)
qed

lemma stream_slices_non_incremental:
  "stream_slices lib fetch fuel (non_incremental s) = stream_slices lib fetch fuel s"
  by (cases s) (simp only: non_incremental_def stream.sel stream_slices_incremental)

text \<open>
  C8. \<open>stream_slices\<close> reads the parent with a fresh instance: no start date, no state
  and no page token are passed to \<open>read_records\<close>. For such an instance
  \<open>request_params\<close> is \<open>TwilioStream.request_params\<close>, so no incremental filter is
  added, also for a parent class that is incremental; hence reading the parent, and the
  slices computed from it, are those of the parent class without
  \<^verbatim>\<open>IncrementalTwilioStream\<close>.
\<close>

theorem parent_resolution_full_refresh:
  "request_params lib (attrs parent) None Map.empty page_token
     = Inr (TwilioStream_request_params Map.empty page_token)
   \<and> read_records lib fetch fuel (attrs (non_incremental parent)) None stream_slice None
     = read_records lib fetch fuel (attrs parent) None stream_slice None
   \<and> stream_slices lib fetch fuel (Stream self (Some (non_incremental parent)))
     = stream_slices lib fetch fuel (Stream self (Some parent))"
proof (intro conjI)
  show "request_params lib (attrs parent) None Map.empty page_token
     = Inr (TwilioStream_request_params Map.empty page_token)"
    by (rule request_params_fresh)
  show rr: "read_records lib fetch fuel (attrs (non_incremental parent)) None stream_slice None
     = read_records lib fetch fuel (attrs parent) None stream_slice None" for stream_slice
    by (simp add: non_incremental_def read_records_incremental)
  show "stream_slices lib fetch fuel (Stream self (Some (non_incremental parent)))
     = stream_slices lib fetch fuel (Stream self (Some parent))"
    unfolding stream_slices.simps option.case rr stream_slices_non_incremental by (rule refl)
qed

lemma title_accounts: "title ''accounts'' = ''Accounts''"
  by (simp add: title_def ascii_alpha_def ascii_upper_def ascii_lower_def)

lemma conference_participants_slices: "stream_slices ref_lib demo_fetch (Suc (Suc 0)) ConferenceParticipants
   = ([Some [''subresource_uri'' \<mapsto> JStr ''/2010-04-01/Accounts/AC1/Conferences/CF1/Participants.json'']],
      Exhausted)"
  by (simp add: stream_class_defs read_records_def path_def TwilioStream_path_def
        TwilioNestedStream_path_def slice_subscript_def request_params_def
        IncrementalTwilioStream_request_params_def effective_start_def get_truthy_def
        TwilioStream_request_params_def HttpStream_request_params_def page_size_def
        demo_fetch_def parse_response_def next_page_token_def item_slices_def
        TwilioNestedStream_item_slices_def generator_of_def title_accounts)

theorem parent_resolution_full_refresh_witness:
  "incremental (attrs Conferences)
   \<and> request_params ref_lib (attrs Conferences) None Map.empty None = Inr [''PageSize'' \<mapsto> JInt 100]
   \<and> stream_slices ref_lib demo_fetch (Suc (Suc 0))
        (Stream (attrs ConferenceParticipants) (Some (non_incremental Conferences)))
       = ([Some [''subresource_uri'' \<mapsto>
                   JStr ''/2010-04-01/Accounts/AC1/Conferences/CF1/Participants.json'']],
          Exhausted)"
proof -
  have a: "incremental (attrs Conferences)"
    by (simp add: stream_class_defs)
  have b: "TwilioStream_request_params Map.empty None = [''PageSize'' \<mapsto> JInt 100]"
    by (simp add: TwilioStream_request_params_def HttpStream_request_params_def page_size_def)
  have c: "Stream (attrs ConferenceParticipants) (Some Conferences) = ConferenceParticipants"
    by (simp add: ConferenceParticipants_def)
  have r1: "request_params ref_lib (attrs Conferences) None Map.empty None
            = Inr [''PageSize'' \<mapsto> JInt 100]"
    using parent_resolution_full_refresh [of ref_lib Conferences None, THEN conjunct1]
    by (simp only: b)
  have r2: "stream_slices ref_lib demo_fetch (Suc (Suc 0))
        (Stream (attrs ConferenceParticipants) (Some (non_incremental Conferences)))
       = ([Some [''subresource_uri'' \<mapsto>
                   JStr ''/2010-04-01/Accounts/AC1/Conferences/CF1/Participants.json'']],
          Exhausted)"
    using parent_resolution_full_refresh
            [of ref_lib Conferences None demo_fetch "Suc (Suc 0)" None "attrs ConferenceParticipants",
             THEN conjunct2, THEN conjunct2]
    by (simp only: c conference_participants_slices)
  show ?thesis
    by (intro conjI a r1 r2)
qed

end
